theory Spec2Isabelle
  imports Main "HOL-Library.Word"
begin

section \<open>Type system of the semantic analyser (semantico.py)\<close>

text \<open>The enumeration \<open>Tipo\<close> of semantico.py, one constructor per member.\<close>

datatype Tipo = INTEIRO | REAL | TEXTO | LOGICO | VAZIO | FUNCAO | DESCONHECIDO | ERRO

text \<open>\<open>MAPA_TIPOS.get(nome, padrao)\<close>: the dictionary from type names to types, with
  the default the caller passes.\<close>

definition MAPA_TIPOS_get :: "string \<Rightarrow> Tipo \<Rightarrow> Tipo" where
  "MAPA_TIPOS_get nome padrao =
     (if nome = ''inteiro'' then INTEIRO
      else if nome = ''real'' then REAL
      else if nome = ''texto'' then TEXTO
      else if nome = ''logico'' then LOGICO
      else if nome = ''vazio'' then VAZIO
      else padrao)"

text \<open>\<open>AnalisadorSemantico.tipos_compativeis\<close>, branch by branch.\<close>

definition tipos_compativeis :: "Tipo \<Rightarrow> Tipo \<Rightarrow> bool" where
  "tipos_compativeis tipo1 tipo2 =
     (if tipo1 = tipo2 then True
      else if tipo1 = INTEIRO \<and> tipo2 = REAL then True
      else if tipo1 = REAL \<and> tipo2 = INTEIRO then True
      else if tipo1 = DESCONHECIDO \<or> tipo2 = DESCONHECIDO then True
      else if tipo1 = ERRO \<or> tipo2 = ERRO then True
      else False)"

text \<open>\<open>AnalisadorSemantico.tipo_resultante\<close>; the operator is the lexeme of the
  operator token, a string, and the three groups are the literal lists of the source.\<close>

definition tipo_resultante :: "Tipo \<Rightarrow> Tipo \<Rightarrow> string \<Rightarrow> Tipo" where
  "tipo_resultante tipo1 tipo2 operador =
     (if operador \<in> set [''+'', ''-'', ''*'', ''/'', ''%'', ''**'']
         \<and> tipo1 = TEXTO \<and> tipo2 = TEXTO \<and> operador = ''+'' then TEXTO
      else if operador \<in> set [''+'', ''-'', ''*'', ''/'', ''%'', ''**'']
         \<and> tipo1 \<in> set [INTEIRO, REAL] \<and> tipo2 \<in> set [INTEIRO, REAL] then
        (if tipo1 = REAL \<or> tipo2 = REAL \<or> operador = ''/'' then REAL else INTEIRO)
      else if operador \<in> set [''=='', ''!='', ''<'', ''<='', ''>'', ''>=''] then LOGICO
      else if operador \<in> set [''e'', ''ou''] then LOGICO
      else ERRO)"

section \<open>Tokens and the syntax tree (lexer.py, parser.py)\<close>

text \<open>The enumeration \<open>TipoToken\<close> of lexer.py. Its members \<open>TEXTO\<close> and
  \<open>FUNCAO\<close> carry the suffix \<open>_tk\<close> here, since \<open>Tipo\<close> has members of the same
  names.\<close>

datatype TipoToken =
    NUMERO_INTEIRO | NUMERO_REAL | TEXTO_tk | VERDADEIRO | FALSO
  | IDENTIFICADOR
  | TIPO_INTEIRO | TIPO_REAL | TIPO_TEXTO | TIPO_LOGICO | TIPO_VAZIO
  | SE | SENAO | SENAOSE | ENQUANTO | PARA | DE | ATE | PASSO | FACA | REPITA
  | FUNCAO_tk | RETORNA
  | ESCREVA | LEIA
  | E | OU | NAO
  | VAR | CONST
  | MAIS | MENOS | MULTIPLICA | DIVIDE | MODULO | POTENCIA
  | IGUAL | DIFERENTE | MENOR | MENOR_IGUAL | MAIOR | MAIOR_IGUAL
  | ATRIBUICAO | MAIS_IGUAL | MENOS_IGUAL | MULT_IGUAL | DIV_IGUAL
  | ABRE_PAREN | FECHA_PAREN | ABRE_CHAVE | FECHA_CHAVE | ABRE_COLCHETE | FECHA_COLCHETE
  | VIRGULA | PONTO_VIRGULA | DOIS_PONTOS | PONTO | SETA
  | FIM_ARQUIVO | NOVA_LINHA | COMENTARIO

text \<open>A host floating-point number, by its IEEE 754 binary64 bit pattern. The development
  never computes with one: it is what the host's \<open>float\<close> returns for the lexeme of a real
  literal.\<close>

datatype pyfloat = PyFloat "64 word"

text \<open>The payload \<open>valor: Any\<close> of a token and of a literal: \<open>None\<close>, an integer, a
  float, a string or a boolean.\<close>

datatype Valor = VNone | VInt int | VReal pyfloat | VStr string | VBool bool

text \<open>A character of a source text is its code point, a natural number, so that a source
  is any host string; \<open>py_ord\<close> is the host's \<open>ord\<close> on the characters below 256.\<close>

definition py_ord :: "char \<Rightarrow> nat" where
  "py_ord c = of_char c"

text \<open>The built-in functions of the host that the compiler calls on lexemes, characters
  and payloads. They are not code of the repository, and every function that calls one
  takes them as a parameter: \<open>int\<close> and \<open>float\<close> of a lexeme, where \<open>None\<close> stands for the
  host's \<open>ValueError\<close>; \<open>repr\<close> and \<open>str\<close> of a payload; and \<open>str.isdigit\<close> of a character
  outside ASCII.\<close>

record Hospedeiro =
  py_int :: "nat list \<Rightarrow> int option"
  py_float :: "nat list \<Rightarrow> pyfloat option"
  py_repr :: "Valor \<Rightarrow> string"
  py_str :: "Valor \<Rightarrow> string"
  py_isdigit :: "nat \<Rightarrow> bool"

text \<open>The host's truth value of a payload, as in \<open>"True" if no.valor else "False"\<close>: a
  float is false when it is zero, of either sign.\<close>

fun verdadeiro_py :: "Valor \<Rightarrow> bool" where
  "verdadeiro_py VNone = False"
| "verdadeiro_py (VInt i) = (i \<noteq> 0)"
| "verdadeiro_py (VReal (PyFloat w)) = (w \<noteq> 0 \<and> w \<noteq> 0x8000000000000000)"
| "verdadeiro_py (VStr s) = (s \<noteq> [])"
| "verdadeiro_py (VBool b) = b"

text \<open>The dataclass \<open>Token\<close>, over the type of the characters of its lexeme. The tokens of
  the scanner are over code points. The syntax tree, and with it the parser, the analyser
  and the emitter, are over \<open>char\<close>: they compare lexemes with the operators and keywords
  of the language and with nothing else, and build the emitted text from them.\<close>

record 'c Token_de =
  tipo :: TipoToken
  lexema :: "'c list"
  valor :: Valor
  linha :: nat
  coluna :: nat

type_synonym Token = "char Token_de"

text \<open>The expression nodes of parser.py, fields in the order of the dataclasses.\<close>

datatype Expressao =
    ExpressaoLiteral Valor string Token
  | ExpressaoVariavel string Token
  | ExpressaoBinaria Expressao Token Expressao
  | ExpressaoUnaria Token Expressao
  | ExpressaoAgrupamento Expressao
  | ExpressaoAtribuicao string Token Expressao
  | ExpressaoLogica Expressao Token Expressao
  | ExpressaoChamadaFuncao string Token "Expressao list"
  | ExpressaoAcessoArray Expressao Expressao Token

text \<open>The statement nodes. An optional field is an \<open>option\<close>. The body \<open>corpo\<close> of a
  function declaration is declared as a \<open>DeclaracaoBloco\<close> and the parser always builds
  one, so the node holds the declarations of that block.\<close>

datatype Declaracao =
    DeclaracaoExpressao Expressao
  | DeclaracaoVariavel string Token "string option" "Expressao option" bool
  | DeclaracaoBloco "Declaracao list"
  | DeclaracaoSe Expressao Declaracao "Declaracao option"
  | DeclaracaoEnquanto Expressao Declaracao
  | DeclaracaoPara string Token Expressao Expressao "Expressao option" Declaracao
  | DeclaracaoFuncao string Token "(string \<times> string) list" "string option" "Declaracao list"
  | DeclaracaoRetorna Token "Expressao option"
  | DeclaracaoEscreva "Expressao list"
  | DeclaracaoLeia string Token "Expressao option"

datatype Programa = Programa "Declaracao list"

section \<open>Symbol table (semantico.py)\<close>

text \<open>The dataclass \<open>Simbolo\<close>. Its fields \<open>tipo\<close>, \<open>linha\<close> and \<open>coluna\<close> carry the
  suffix \<open>_simbolo\<close>, since \<open>Token\<close> has fields of the same names.\<close>

record Simbolo =
  nome :: string
  tipo_simbolo :: Tipo
  categoria :: string
  escopo :: nat
  linha_simbolo :: nat
  coluna_simbolo :: nat
  constante :: bool
  parametros :: "(string \<times> Tipo) list"
  tipo_retorno :: "Tipo option"
  inicializado :: bool

text \<open>The class \<open>TabelaSimbolos\<close>. A \<open>Simbolo\<close> is a mutable object that the scope
  dictionaries, the list \<open>todos_simbolos\<close> and the analyser's \<open>funcao_atual\<close> share.
  \<open>declarar\<close> is the only place that stores one, and it appends it to
  \<open>todos_simbolos\<close> at the same moment; so \<open>todos_simbolos\<close> is the store of the symbol
  objects, an object is named by its position there, and a scope dictionary maps a name
  to that position.\<close>

record TabelaSimbolos =
  escopos :: "(string \<rightharpoonup> nat) list"
  escopo_atual :: nat
  todos_simbolos :: "Simbolo list"

definition TabelaSimbolos_init :: TabelaSimbolos where
  "TabelaSimbolos_init = \<lparr>escopos = [Map.empty], escopo_atual = 0, todos_simbolos = []\<rparr>"

definition entrar_escopo :: "TabelaSimbolos \<Rightarrow> TabelaSimbolos" where
  "entrar_escopo t = t\<lparr>escopos := escopos t @ [Map.empty], escopo_atual := escopo_atual t + 1\<rparr>"

definition sair_escopo :: "TabelaSimbolos \<Rightarrow> TabelaSimbolos" where
  "sair_escopo t =
     (if escopo_atual t > 0
      then t\<lparr>escopos := butlast (escopos t), escopo_atual := escopo_atual t - 1\<rparr>
      else t)"

text \<open>\<open>declarar\<close> returns whether the symbol was entered, and the table.\<close>

definition declarar :: "Simbolo \<Rightarrow> TabelaSimbolos \<Rightarrow> bool \<times> TabelaSimbolos" where
  "declarar simbolo t =
     (if (escopos t ! escopo_atual t) (nome simbolo) \<noteq> None then (False, t)
      else (True,
        t\<lparr>escopos := (escopos t)[escopo_atual t :=
               (escopos t ! escopo_atual t)(nome simbolo \<mapsto> length (todos_simbolos t))],
          todos_simbolos := todos_simbolos t @ [simbolo\<lparr>escopo := escopo_atual t\<rparr>]\<rparr>))"

text \<open>\<open>buscar\<close> walks \<open>reversed(self.escopos)\<close>; \<open>buscar_em\<close> is that loop over the
  reversed list.\<close>

fun buscar_em :: "(string \<rightharpoonup> nat) list \<Rightarrow> string \<Rightarrow> nat option" where
  "buscar_em [] n = None"
| "buscar_em (e # es) n = (case e n of Some i \<Rightarrow> Some i | None \<Rightarrow> buscar_em es n)"

definition buscar :: "TabelaSimbolos \<Rightarrow> string \<Rightarrow> nat option" where
  "buscar t n = buscar_em (rev (escopos t)) n"

definition buscar_local :: "TabelaSimbolos \<Rightarrow> string \<Rightarrow> nat option" where
  "buscar_local t n = (escopos t ! escopo_atual t) n"

section \<open>Diagnostics (semantico.py)\<close>

text \<open>The message of a diagnostic is a formatted string in the source. Here it is the
  format, one constructor per f-string of semantico.py, with the values the f-string
  interpolates, in the order it interpolates them.\<close>

datatype Mensagem =
    FuncaoJaDeclarada string nat
  | VariavelJaDeclarada string nat
  | TipoIncompativel Tipo Tipo
  | ConstanteSemInicializador string
  | CondicaoSe Tipo
  | CondicaoEnquanto Tipo
  | ValorInicialPara Tipo
  | ValorFinalPara Tipo
  | PassoPara Tipo
  | RetornaForaDeFuncao
  | NaoDeveriaRetornarValor string
  | TipoRetornoIncompativel "Tipo option" Tipo
  | DeveriaRetornar string "Tipo option"
  | VariavelNaoDeclarada string
  | LerParaConstante string
  | MensagemLeia Tipo
  | OperadorBinario string Tipo Tipo
  | OperadorMenos Tipo
  | OperadorNao Tipo
  | AtribuirConstante string
  | OperandoEsquerdo string Tipo
  | OperandoDireito string Tipo
  | FuncaoNaoDeclarada string
  | NaoEhFuncao string
  | NumeroArgumentos string nat nat
  | TipoArgumento nat string Tipo Tipo
  | IndiceArray Tipo
  | SemPrincipal
  | NemTodosCaminhosRetornam string Tipo
  | PodeNaoEstarInicializada string

datatype ErroSemantico = ErroSemantico Mensagem nat nat

datatype AvisoSemantico = AvisoSemantico Mensagem nat nat

section \<open>The semantic analyser (semantico.py)\<close>

text \<open>The mutable state of \<open>AnalisadorSemantico\<close>. \<open>funcao_atual\<close> is \<open>None\<close> or the
  position of the current function's symbol in the store.\<close>

record AnalisadorSemantico =
  tabela :: TabelaSimbolos
  erros :: "ErroSemantico list"
  avisos :: "AvisoSemantico list"
  funcao_atual :: "nat option"
  tem_retorno :: bool

definition erro :: "Mensagem \<Rightarrow> nat \<Rightarrow> nat \<Rightarrow> AnalisadorSemantico \<Rightarrow> AnalisadorSemantico" where
  "erro m l c a = a\<lparr>erros := erros a @ [ErroSemantico m l c]\<rparr>"

definition aviso :: "Mensagem \<Rightarrow> nat \<Rightarrow> nat \<Rightarrow> AnalisadorSemantico \<Rightarrow> AnalisadorSemantico" where
  "aviso m l c a = a\<lparr>avisos := avisos a @ [AvisoSemantico m l c]\<rparr>"

text \<open>The symbol object at position \<open>i\<close> of the store, as the analyser sees it now.\<close>

definition simbolo_em :: "AnalisadorSemantico \<Rightarrow> nat \<Rightarrow> Simbolo" where
  "simbolo_em a i = todos_simbolos (tabela a) ! i"

text \<open>The assignment \<open>simbolo.inicializado = True\<close> on the object at position \<open>i\<close>.\<close>

definition marcar_inicializado :: "nat \<Rightarrow> AnalisadorSemantico \<Rightarrow> AnalisadorSemantico" where
  "marcar_inicializado i a =
     a\<lparr>tabela := (tabela a)\<lparr>todos_simbolos :=
          (todos_simbolos (tabela a))[i := (todos_simbolos (tabela a) ! i)\<lparr>inicializado := True\<rparr>]\<rparr>\<rparr>"

definition declarar_simbolo :: "Simbolo \<Rightarrow> AnalisadorSemantico \<Rightarrow> AnalisadorSemantico" where
  "declarar_simbolo s a = a\<lparr>tabela := snd (declarar s (tabela a))\<rparr>"

text \<open>\<open>_registrar_builtins\<close>: the three loops and the last declaration, in order.\<close>

definition simbolo_builtin :: "string \<Rightarrow> (string \<times> Tipo) list \<Rightarrow> Tipo \<Rightarrow> Simbolo" where
  "simbolo_builtin n ps tr =
     \<lparr>nome = n, tipo_simbolo = FUNCAO, categoria = ''funcao'', escopo = 0,
      linha_simbolo = 0, coluna_simbolo = 0, constante = False, parametros = ps,
      tipo_retorno = Some tr, inicializado = False\<rparr>"

definition registrar_builtins :: "AnalisadorSemantico \<Rightarrow> AnalisadorSemantico" where
  "registrar_builtins a =
     (let a1 = fold (\<lambda>(n, tr). declarar_simbolo (simbolo_builtin n [(''valor'', DESCONHECIDO)] tr))
                 [(''paraInteiro'', INTEIRO), (''paraReal'', REAL), (''paraTexto'', TEXTO)] a;
          a2 = fold (\<lambda>n. declarar_simbolo (simbolo_builtin n [(''x'', REAL)] REAL))
                 [''raiz'', ''absoluto'', ''arredonda''] a1
      in declarar_simbolo (simbolo_builtin ''tamanho'' [(''texto'', TEXTO)] INTEIRO) a2)"

text \<open>\<open>AnalisadorSemantico.__init__\<close>.\<close>

definition AnalisadorSemantico_init :: AnalisadorSemantico where
  "AnalisadorSemantico_init =
     registrar_builtins
       \<lparr>tabela = TabelaSimbolos_init, erros = [], avisos = [], funcao_atual = None,
        tem_retorno = False\<rparr>"

text \<open>\<open>MAPA_TIPOS.get(x, padrao) if x else padrao\<close> for an optional type name \<open>x\<close>: the
  empty string is falsy, as \<open>None\<close> is.\<close>

definition tipo_do_nome :: "string option \<Rightarrow> Tipo \<Rightarrow> Tipo" where
  "tipo_do_nome x padrao =
     (case x of None \<Rightarrow> padrao
      | Some n \<Rightarrow> if n = [] then padrao else MAPA_TIPOS_get n padrao)"

text \<open>\<open>hasattr(no, 'token')\<close>: of the expression nodes, only a literal and a variable
  have a field named \<open>token\<close>.\<close>

fun token_de :: "Expressao \<Rightarrow> Token option" where
  "token_de (ExpressaoLiteral v tp tk) = Some tk"
| "token_de (ExpressaoVariavel n tk) = Some tk"
| "token_de e = None"

subsection \<open>What each expression visitor does once its operands are visited\<close>

definition resultado_binaria ::
    "Token \<Rightarrow> Tipo \<Rightarrow> Tipo \<Rightarrow> AnalisadorSemantico \<Rightarrow> Tipo \<times> AnalisadorSemantico" where
  "resultado_binaria operador tipo_esq tipo_dir a =
     (let tipo_resultado = tipo_resultante tipo_esq tipo_dir (lexema operador)
      in (tipo_resultado,
          if tipo_resultado = ERRO
          then erro (OperadorBinario (lexema operador) tipo_esq tipo_dir)
                 (linha operador) (coluna operador) a
          else a))"

definition resultado_unaria ::
    "Token \<Rightarrow> Tipo \<Rightarrow> AnalisadorSemantico \<Rightarrow> Tipo \<times> AnalisadorSemantico" where
  "resultado_unaria operador tipo_operando a =
     (if lexema operador = ''-'' then
        (if tipo_operando \<notin> set [INTEIRO, REAL]
         then (ERRO, erro (OperadorMenos tipo_operando) (linha operador) (coluna operador) a)
         else (tipo_operando, a))
      else if lexema operador = ''nao'' then
        (if tipo_operando \<noteq> LOGICO
         then (ERRO, erro (OperadorNao tipo_operando) (linha operador) (coluna operador) a)
         else (LOGICO, a))
      else (tipo_operando, a))"

definition resultado_logica ::
    "Token \<Rightarrow> Tipo \<Rightarrow> Tipo \<Rightarrow> AnalisadorSemantico \<Rightarrow> Tipo \<times> AnalisadorSemantico" where
  "resultado_logica operador tipo_esq tipo_dir a =
     (let a1 = (if tipo_esq \<noteq> LOGICO
                then erro (OperandoEsquerdo (lexema operador) tipo_esq)
                       (linha operador) (coluna operador) a
                else a);
          a2 = (if tipo_dir \<noteq> LOGICO
                then erro (OperandoDireito (lexema operador) tipo_dir)
                       (linha operador) (coluna operador) a1
                else a1)
      in (LOGICO, a2))"

definition resultado_variavel ::
    "string \<Rightarrow> Token \<Rightarrow> AnalisadorSemantico \<Rightarrow> Tipo \<times> AnalisadorSemantico" where
  "resultado_variavel n tk a =
     (case buscar (tabela a) n of
        None \<Rightarrow> (ERRO, erro (VariavelNaoDeclarada n) (linha tk) (coluna tk) a)
      | Some i \<Rightarrow>
          (tipo_simbolo (simbolo_em a i),
           if \<not> inicializado (simbolo_em a i) \<and> categoria (simbolo_em a i) = ''variavel''
           then aviso (PodeNaoEstarInicializada n) (linha tk) (coluna tk) a
           else a))"

text \<open>The end of \<open>visitar_atribuicao\<close>, after the value has been visited: the check of the
  types, then \<open>simbolo.inicializado = True\<close>, then the symbol's type.\<close>

definition resultado_atribuicao ::
    "nat \<Rightarrow> Token \<Rightarrow> Tipo \<Rightarrow> AnalisadorSemantico \<Rightarrow> Tipo \<times> AnalisadorSemantico" where
  "resultado_atribuicao i tk tipo_valor a =
     (let a1 = (if \<not> tipos_compativeis (tipo_simbolo (simbolo_em a i)) tipo_valor
                then erro (TipoIncompativel tipo_valor (tipo_simbolo (simbolo_em a i)))
                       (linha tk) (coluna tk) a
                else a);
          a2 = marcar_inicializado i a1
      in (tipo_simbolo (simbolo_em a2 i), a2))"

definition resultado_indice ::
    "Token \<Rightarrow> Tipo \<Rightarrow> AnalisadorSemantico \<Rightarrow> Tipo \<times> AnalisadorSemantico" where
  "resultado_indice tk tipo_indice a =
     (DESCONHECIDO,
      if tipo_indice \<noteq> INTEIRO
      then erro (IndiceArray tipo_indice) (linha tk) (coluna tk) a
      else a)"

definition verificar_argumento ::
    "string \<Rightarrow> Token \<Rightarrow> nat \<Rightarrow> Tipo \<Rightarrow> Tipo \<Rightarrow> AnalisadorSemantico \<Rightarrow> AnalisadorSemantico" where
  "verificar_argumento n tk i tipo_param tipo_arg a =
     (if \<not> tipos_compativeis tipo_param tipo_arg
      then erro (TipoArgumento (i + 1) n tipo_param tipo_arg) (linha tk) (coluna tk) a
      else a)"

subsection \<open>The expression visitors\<close>

text \<open>One equation per \<open>visitar_*\<close> method for expressions; the result is the type the
  method returns and the analyser after it. \<open>visitar_argumentos\<close> is the loop of
  \<open>visitar_chamada_funcao\<close> over \<open>enumerate(zip(no.argumentos, simbolo.parametros))\<close>: it
  stops at the shorter of the two lists.\<close>

fun visitar_expressao :: "Expressao \<Rightarrow> AnalisadorSemantico \<Rightarrow> Tipo \<times> AnalisadorSemantico"
and visitar_argumentos ::
    "string \<Rightarrow> Token \<Rightarrow> nat \<Rightarrow> Expressao list \<Rightarrow> (string \<times> Tipo) list
     \<Rightarrow> AnalisadorSemantico \<Rightarrow> AnalisadorSemantico"
where
  "visitar_expressao (ExpressaoLiteral v tp tk) a = (MAPA_TIPOS_get tp DESCONHECIDO, a)"
| "visitar_expressao (ExpressaoVariavel n tk) a = resultado_variavel n tk a"
| "visitar_expressao (ExpressaoBinaria esquerda operador direita) a =
     (case visitar_expressao esquerda a of (tipo_esq, a1) \<Rightarrow>
      case visitar_expressao direita a1 of (tipo_dir, a2) \<Rightarrow>
        resultado_binaria operador tipo_esq tipo_dir a2)"
| "visitar_expressao (ExpressaoUnaria operador operando) a =
     (case visitar_expressao operando a of (tipo_operando, a1) \<Rightarrow>
        resultado_unaria operador tipo_operando a1)"
| "visitar_expressao (ExpressaoAgrupamento e) a = visitar_expressao e a"
| "visitar_expressao (ExpressaoAtribuicao n tk v) a =
     (case buscar (tabela a) n of
        None \<Rightarrow> (ERRO, erro (VariavelNaoDeclarada n) (linha tk) (coluna tk) a)
      | Some i \<Rightarrow>
          (case visitar_expressao v
                  (if constante (simbolo_em a i)
                   then erro (AtribuirConstante n) (linha tk) (coluna tk) a
                   else a) of
             (tipo_valor, a2) \<Rightarrow> resultado_atribuicao i tk tipo_valor a2))"
| "visitar_expressao (ExpressaoLogica esquerda operador direita) a =
     (case visitar_expressao esquerda a of (tipo_esq, a1) \<Rightarrow>
      case visitar_expressao direita a1 of (tipo_dir, a2) \<Rightarrow>
        resultado_logica operador tipo_esq tipo_dir a2)"
| "visitar_expressao (ExpressaoChamadaFuncao n tk argumentos) a =
     (case buscar (tabela a) n of
        None \<Rightarrow> (ERRO, erro (FuncaoNaoDeclarada n) (linha tk) (coluna tk) a)
      | Some i \<Rightarrow>
          if tipo_simbolo (simbolo_em a i) \<noteq> FUNCAO
          then (ERRO, erro (NaoEhFuncao n) (linha tk) (coluna tk) a)
          else
            (case visitar_argumentos n tk 0 argumentos (parametros (simbolo_em a i))
                    (if length argumentos \<noteq> length (parametros (simbolo_em a i))
                     then erro (NumeroArgumentos n (length (parametros (simbolo_em a i)))
                                  (length argumentos)) (linha tk) (coluna tk) a
                     else a) of
               a2 \<Rightarrow> (case tipo_retorno (simbolo_em a2 i) of None \<Rightarrow> VAZIO | Some t \<Rightarrow> t, a2)))"
| "visitar_expressao (ExpressaoAcessoArray objeto indice tk) a =
     (case visitar_expressao indice a of (tipo_indice, a1) \<Rightarrow>
        resultado_indice tk tipo_indice a1)"
| "visitar_argumentos n tk i [] ps a = a"
| "visitar_argumentos n tk i (arg # args) [] a = a"
| "visitar_argumentos n tk i (arg # args) (p # ps) a =
     (case visitar_expressao arg a of (tipo_arg, a1) \<Rightarrow>
        visitar_argumentos n tk (i + 1) args ps (verificar_argumento n tk i (snd p) tipo_arg a1))"

subsection \<open>What each statement visitor does around its sub-statements\<close>

definition verificar_condicao_se ::
    "Expressao \<Rightarrow> Tipo \<Rightarrow> AnalisadorSemantico \<Rightarrow> AnalisadorSemantico" where
  "verificar_condicao_se condicao tipo_cond a =
     (if tipo_cond \<noteq> LOGICO \<and> tipo_cond \<noteq> ERRO
      then erro (CondicaoSe tipo_cond)
             (case token_de condicao of Some tk \<Rightarrow> linha tk | None \<Rightarrow> 0)
             (case token_de condicao of Some tk \<Rightarrow> coluna tk | None \<Rightarrow> 0) a
      else a)"

definition verificar_condicao_enquanto :: "Tipo \<Rightarrow> AnalisadorSemantico \<Rightarrow> AnalisadorSemantico" where
  "verificar_condicao_enquanto tipo_cond a =
     (if tipo_cond \<noteq> LOGICO \<and> tipo_cond \<noteq> ERRO
      then erro (CondicaoEnquanto tipo_cond) 0 0 a
      else a)"

definition verificar_numerico ::
    "(Tipo \<Rightarrow> Mensagem) \<Rightarrow> Token \<Rightarrow> Tipo \<Rightarrow> AnalisadorSemantico \<Rightarrow> AnalisadorSemantico" where
  "verificar_numerico m tk t a =
     (if t \<notin> set [INTEIRO, REAL] then erro (m t) (linha tk) (coluna tk) a else a)"

text \<open>The symbol \<open>visitar_para\<close> declares for the loop variable.\<close>

definition simbolo_para :: "string \<Rightarrow> Token \<Rightarrow> AnalisadorSemantico \<Rightarrow> Simbolo" where
  "simbolo_para n tk a =
     \<lparr>nome = n, tipo_simbolo = INTEIRO, categoria = ''variavel'',
      escopo = escopo_atual (tabela a), linha_simbolo = linha tk, coluna_simbolo = coluna tk,
      constante = False, parametros = [], tipo_retorno = None, inicializado = True\<rparr>"

text \<open>The symbol \<open>visitar_funcao\<close> declares for the function, and its loop over the
  parameters.\<close>

definition simbolo_funcao ::
    "string \<Rightarrow> Token \<Rightarrow> (string \<times> Tipo) list \<Rightarrow> Tipo \<Rightarrow> AnalisadorSemantico \<Rightarrow> Simbolo" where
  "simbolo_funcao n tk ps tr a =
     \<lparr>nome = n, tipo_simbolo = FUNCAO, categoria = ''funcao'',
      escopo = escopo_atual (tabela a), linha_simbolo = linha tk, coluna_simbolo = coluna tk,
      constante = False, parametros = ps, tipo_retorno = Some tr, inicializado = False\<rparr>"

definition simbolo_parametro :: "string \<Rightarrow> Tipo \<Rightarrow> Token \<Rightarrow> AnalisadorSemantico \<Rightarrow> Simbolo" where
  "simbolo_parametro n t tk a =
     \<lparr>nome = n, tipo_simbolo = t, categoria = ''parametro'',
      escopo = escopo_atual (tabela a), linha_simbolo = linha tk, coluna_simbolo = coluna tk,
      constante = False, parametros = [], tipo_retorno = None, inicializado = True\<rparr>"

definition declarar_parametros ::
    "(string \<times> Tipo) list \<Rightarrow> Token \<Rightarrow> AnalisadorSemantico \<Rightarrow> AnalisadorSemantico" where
  "declarar_parametros ps tk a =
     fold (\<lambda>(n, t) a'. declarar_simbolo (simbolo_parametro n t tk a') a') ps a"

text \<open>The beginning of \<open>visitar_funcao\<close> after the check for an existing symbol: declare
  the function, enter its scope, set \<open>funcao_atual\<close> to the new symbol, reset
  \<open>tem_retorno\<close>, declare the parameters.\<close>

definition abrir_funcao ::
    "string \<Rightarrow> Token \<Rightarrow> (string \<times> string) list \<Rightarrow> string option
     \<Rightarrow> AnalisadorSemantico \<Rightarrow> AnalisadorSemantico" where
  "abrir_funcao n tk params tr a =
     (let tipo_ret = tipo_do_nome tr VAZIO;
          ps = map (\<lambda>p. (fst p, MAPA_TIPOS_get (snd p) DESCONHECIDO)) params;
          a1 = declarar_simbolo (simbolo_funcao n tk ps tipo_ret a) a;
          a2 = a1\<lparr>tabela := entrar_escopo (tabela a1)\<rparr>;
          a3 = a2\<lparr>funcao_atual := Some (length (todos_simbolos (tabela a))),
                  tem_retorno := False\<rparr>
      in declarar_parametros ps tk a3)"

text \<open>The end of \<open>visitar_funcao\<close>, after the body: the warning for a missing return,
  leaving the scope, and \<open>funcao_atual\<close> back to \<open>funcao_anterior\<close>.\<close>

definition fechar_funcao ::
    "string \<Rightarrow> Token \<Rightarrow> string option \<Rightarrow> nat option
     \<Rightarrow> AnalisadorSemantico \<Rightarrow> AnalisadorSemantico" where
  "fechar_funcao n tk tr funcao_anterior a =
     (let tipo_ret = tipo_do_nome tr VAZIO;
          a1 = (if tipo_ret \<noteq> VAZIO \<and> \<not> tem_retorno a
                then aviso (NemTodosCaminhosRetornam n tipo_ret) (linha tk) (coluna tk) a
                else a)
      in a1\<lparr>tabela := sair_escopo (tabela a1), funcao_atual := funcao_anterior\<rparr>)"

text \<open>\<open>visitar_declaracao_variavel\<close> after the check for an existing symbol and the visit
  of the initialiser (\<open>ini\<close> is its type, when there is one).\<close>

definition concluir_declaracao_variavel ::
    "string \<Rightarrow> Token \<Rightarrow> string option \<Rightarrow> Tipo option \<Rightarrow> bool
     \<Rightarrow> AnalisadorSemantico \<Rightarrow> AnalisadorSemantico" where
  "concluir_declaracao_variavel n tk tipo_dado ini const a =
     (let tipo0 = tipo_do_nome tipo_dado DESCONHECIDO;
          tipo1 = (case ini of None \<Rightarrow> tipo0
                   | Some ti \<Rightarrow> if tipo0 = DESCONHECIDO then ti else tipo0);
          a1 = (case ini of None \<Rightarrow> a
                | Some ti \<Rightarrow>
                    if tipo0 \<noteq> DESCONHECIDO \<and> \<not> tipos_compativeis tipo0 ti
                    then erro (TipoIncompativel ti tipo0) (linha tk) (coluna tk) a
                    else a);
          a2 = (if const \<and> ini = None
                then erro (ConstanteSemInicializador n) (linha tk) (coluna tk) a1
                else a1)
      in declarar_simbolo
           \<lparr>nome = n, tipo_simbolo = tipo1,
            categoria = (if const then ''constante'' else ''variavel''),
            escopo = escopo_atual (tabela a2), linha_simbolo = linha tk,
            coluna_simbolo = coluna tk, constante = const, parametros = [],
            tipo_retorno = None, inicializado = (ini \<noteq> None)\<rparr> a2)"

text \<open>\<open>visitar_retorna\<close> after \<open>tem_retorno = True\<close> and the check that a function is
  being analysed, for a \<open>retorna\<close> without a value and for one whose value has been
  visited. \<open>tipo_esperado\<close> is the field \<open>tipo_retorno\<close> of the current function's
  symbol, an \<open>Optional[Tipo]\<close>; \<open>visitar_funcao\<close> always fills it, and for \<open>None\<close> the
  comparisons of \<open>tipos_compativeis\<close> come out as written in \<open>compativel_com_esperado\<close>.\<close>

definition compativel_com_esperado :: "Tipo option \<Rightarrow> Tipo \<Rightarrow> bool" where
  "compativel_com_esperado tipo_esperado tipo_valor =
     (case tipo_esperado of
        Some t \<Rightarrow> tipos_compativeis t tipo_valor
      | None \<Rightarrow> tipo_valor = DESCONHECIDO \<or> tipo_valor = ERRO)"

definition retorna_sem_valor :: "Token \<Rightarrow> nat \<Rightarrow> AnalisadorSemantico \<Rightarrow> AnalisadorSemantico" where
  "retorna_sem_valor tk f a =
     (let tipo_esperado = tipo_retorno (simbolo_em a f)
      in if tipo_esperado \<noteq> Some VAZIO
         then erro (DeveriaRetornar (nome (simbolo_em a f)) tipo_esperado)
                (linha tk) (coluna tk) a
         else a)"

definition retorna_com_valor ::
    "Token \<Rightarrow> Tipo option \<Rightarrow> string \<Rightarrow> Tipo \<Rightarrow> AnalisadorSemantico \<Rightarrow> AnalisadorSemantico" where
  "retorna_com_valor tk tipo_esperado nome_funcao tipo_valor a =
     (if tipo_esperado = Some VAZIO
      then erro (NaoDeveriaRetornarValor nome_funcao) (linha tk) (coluna tk) a
      else if \<not> compativel_com_esperado tipo_esperado tipo_valor
      then erro (TipoRetornoIncompativel tipo_esperado tipo_valor) (linha tk) (coluna tk) a
      else a)"

text \<open>\<open>visitar_leia\<close> before the prompt is visited, and the check of the prompt's type.\<close>

definition leia_variavel :: "string \<Rightarrow> Token \<Rightarrow> AnalisadorSemantico \<Rightarrow> AnalisadorSemantico" where
  "leia_variavel n tk a =
     (case buscar (tabela a) n of
        None \<Rightarrow> erro (VariavelNaoDeclarada n) (linha tk) (coluna tk) a
      | Some i \<Rightarrow>
          if constante (simbolo_em a i)
          then erro (LerParaConstante n) (linha tk) (coluna tk) a
          else marcar_inicializado i a)"

definition verificar_mensagem_leia ::
    "Token \<Rightarrow> Tipo \<Rightarrow> AnalisadorSemantico \<Rightarrow> AnalisadorSemantico" where
  "verificar_mensagem_leia tk tipo_msg a =
     (if tipo_msg \<noteq> TEXTO then erro (MensagemLeia tipo_msg) (linha tk) (coluna tk) a else a)"

definition entrar :: "AnalisadorSemantico \<Rightarrow> AnalisadorSemantico" where
  "entrar a = a\<lparr>tabela := entrar_escopo (tabela a)\<rparr>"

definition sair :: "AnalisadorSemantico \<Rightarrow> AnalisadorSemantico" where
  "sair a = a\<lparr>tabela := sair_escopo (tabela a)\<rparr>"

subsection \<open>The statement visitors\<close>

text \<open>One equation per \<open>visitar_*\<close> method for statements (two where a field is optional);
  the result is the analyser after the method. The value a statement visitor returns is
  never read by a caller. \<open>visitar_expressoes\<close> is the loop of \<open>visitar_escreva\<close>,
  \<open>visitar_declaracoes\<close> the loop over the declarations of a block or of the program.\<close>

fun visitar_expressoes :: "Expressao list \<Rightarrow> AnalisadorSemantico \<Rightarrow> AnalisadorSemantico" where
  "visitar_expressoes [] a = a"
| "visitar_expressoes (e # es) a = visitar_expressoes es (snd (visitar_expressao e a))"

fun visitar_declaracao :: "Declaracao \<Rightarrow> AnalisadorSemantico \<Rightarrow> AnalisadorSemantico"
and visitar_declaracoes :: "Declaracao list \<Rightarrow> AnalisadorSemantico \<Rightarrow> AnalisadorSemantico"
where
  "visitar_declaracao (DeclaracaoExpressao e) a = snd (visitar_expressao e a)"
| "visitar_declaracao (DeclaracaoVariavel n tk tipo_dado inicializador const) a =
     (case buscar_local (tabela a) n of
        Some existente \<Rightarrow>
          erro (VariavelJaDeclarada n (linha_simbolo (simbolo_em a existente)))
            (linha tk) (coluna tk) a
      | None \<Rightarrow>
          (case inicializador of
             None \<Rightarrow> concluir_declaracao_variavel n tk tipo_dado None const a
           | Some e \<Rightarrow>
               (case visitar_expressao e a of (tipo_inicializador, a1) \<Rightarrow>
                  concluir_declaracao_variavel n tk tipo_dado (Some tipo_inicializador) const a1)))"
| "visitar_declaracao (DeclaracaoBloco ds) a = sair (visitar_declaracoes ds (entrar a))"
| "visitar_declaracao (DeclaracaoSe condicao bloco_verdadeiro None) a =
     (case visitar_expressao condicao a of (tipo_cond, a0) \<Rightarrow>
        let a1 = verificar_condicao_se condicao tipo_cond a0;
            a2 = visitar_declaracao bloco_verdadeiro a1;
            tem_retorno_verdadeiro = tem_retorno a2;
            tem_retorno_falso = False
        in a2\<lparr>tem_retorno := tem_retorno_verdadeiro \<and> tem_retorno_falso\<rparr>)"
| "visitar_declaracao (DeclaracaoSe condicao bloco_verdadeiro (Some bloco_falso)) a =
     (case visitar_expressao condicao a of (tipo_cond, a0) \<Rightarrow>
        let a1 = verificar_condicao_se condicao tipo_cond a0;
            tem_retorno_antes = tem_retorno a1;
            a2 = visitar_declaracao bloco_verdadeiro a1;
            tem_retorno_verdadeiro = tem_retorno a2;
            a3 = visitar_declaracao bloco_falso (a2\<lparr>tem_retorno := tem_retorno_antes\<rparr>);
            tem_retorno_falso = tem_retorno a3
        in a3\<lparr>tem_retorno := tem_retorno_verdadeiro \<and> tem_retorno_falso\<rparr>)"
| "visitar_declaracao (DeclaracaoEnquanto condicao corpo) a =
     (case visitar_expressao condicao a of (tipo_cond, a0) \<Rightarrow>
        visitar_declaracao corpo (verificar_condicao_enquanto tipo_cond a0))"
| "visitar_declaracao (DeclaracaoPara n tk inicio fim None corpo) a =
     (let a0 = declarar_simbolo (simbolo_para n tk (entrar a)) (entrar a)
      in case visitar_expressao inicio a0 of (tipo_inicio, a1) \<Rightarrow>
         case visitar_expressao fim a1 of (tipo_fim, a2) \<Rightarrow>
           sair (visitar_declaracao corpo
                   (verificar_numerico ValorFinalPara tk tipo_fim
                      (verificar_numerico ValorInicialPara tk tipo_inicio a2))))"
| "visitar_declaracao (DeclaracaoPara n tk inicio fim (Some passo) corpo) a =
     (let a0 = declarar_simbolo (simbolo_para n tk (entrar a)) (entrar a)
      in case visitar_expressao inicio a0 of (tipo_inicio, a1) \<Rightarrow>
         case visitar_expressao fim a1 of (tipo_fim, a2) \<Rightarrow>
         case visitar_expressao passo
                (verificar_numerico ValorFinalPara tk tipo_fim
                   (verificar_numerico ValorInicialPara tk tipo_inicio a2)) of
           (tipo_passo, a3) \<Rightarrow>
             sair (visitar_declaracao corpo (verificar_numerico PassoPara tk tipo_passo a3)))"
| "visitar_declaracao (DeclaracaoFuncao n tk params tr corpo) a =
     (case buscar_local (tabela a) n of
        Some existente \<Rightarrow>
          erro (FuncaoJaDeclarada n (linha_simbolo (simbolo_em a existente)))
            (linha tk) (coluna tk) a
      | None \<Rightarrow>
          fechar_funcao n tk tr (funcao_atual a)
            (sair (visitar_declaracoes corpo (entrar (abrir_funcao n tk params tr a)))))"
| "visitar_declaracao (DeclaracaoRetorna tk None) a =
     (case funcao_atual a of
        None \<Rightarrow> erro RetornaForaDeFuncao (linha tk) (coluna tk) (a\<lparr>tem_retorno := True\<rparr>)
      | Some f \<Rightarrow> retorna_sem_valor tk f (a\<lparr>tem_retorno := True\<rparr>))"
| "visitar_declaracao (DeclaracaoRetorna tk (Some v)) a =
     (case funcao_atual a of
        None \<Rightarrow> erro RetornaForaDeFuncao (linha tk) (coluna tk) (a\<lparr>tem_retorno := True\<rparr>)
      | Some f \<Rightarrow>
          (case visitar_expressao v (a\<lparr>tem_retorno := True\<rparr>) of (tipo_valor, a1) \<Rightarrow>
             retorna_com_valor tk (tipo_retorno (simbolo_em a f)) (nome (simbolo_em a1 f))
               tipo_valor a1))"
| "visitar_declaracao (DeclaracaoEscreva es) a = visitar_expressoes es a"
| "visitar_declaracao (DeclaracaoLeia n tk None) a = leia_variavel n tk a"
| "visitar_declaracao (DeclaracaoLeia n tk (Some mensagem)) a =
     (case visitar_expressao mensagem (leia_variavel n tk a) of (tipo_msg, a1) \<Rightarrow>
        verificar_mensagem_leia tk tipo_msg a1)"
| "visitar_declaracoes [] a = a"
| "visitar_declaracoes (d # ds) a = visitar_declaracoes ds (visitar_declaracao d a)"

text \<open>\<open>visitar_programa\<close>, and \<open>analisar\<close>: a new analyser visits the program; the result
  is whether \<open>erros\<close> is empty, with the analyser as the method leaves it.\<close>

fun visitar_programa :: "Programa \<Rightarrow> AnalisadorSemantico \<Rightarrow> AnalisadorSemantico" where
  "visitar_programa (Programa ds) a =
     (let a1 = visitar_declaracoes ds a
      in if buscar (tabela a1) ''principal'' = None then aviso SemPrincipal 1 1 a1 else a1)"

definition analisar :: "Programa \<Rightarrow> bool \<times> AnalisadorSemantico" where
  "analisar p = (let a = visitar_programa p AnalisadorSemantico_init in (erros a = [], a))"

section \<open>The emitter (class GeradorPython of lusitano.py)\<close>

text \<open>The state of a \<open>GeradorPython\<close>.\<close>

record GeradorPython =
  indent_level :: int
  codigo :: "string list"
  em_expressao :: bool

definition GeradorPython_init :: GeradorPython where
  "GeradorPython_init = \<lparr>indent_level = 0, codigo = [], em_expressao = False\<rparr>"

text \<open>\<open>_indent\<close>: the host's \<open>"    " * n\<close> is the empty string for a negative \<open>n\<close>.\<close>

definition indent :: "GeradorPython \<Rightarrow> string" where
  "indent g = concat (replicate (nat (indent_level g)) ''    '')"

text \<open>\<open>_adicionar\<close>.\<close>

definition adicionar :: "string \<Rightarrow> GeradorPython \<Rightarrow> GeradorPython" where
  "adicionar l g = g\<lparr>codigo := codigo g @ [indent g @ l]\<rparr>"

text \<open>The host's \<open>sep.join(xs)\<close>.\<close>

fun join :: "string \<Rightarrow> string list \<Rightarrow> string" where
  "join sep [] = []"
| "join sep [x] = x"
| "join sep (x # y # ys) = x @ sep @ join sep (y # ys)"

text \<open>\<open>mapa_ops.get(op, op)\<close> of \<open>visitar_binaria\<close>.\<close>

definition mapa_ops_get :: "string \<Rightarrow> string \<Rightarrow> string" where
  "mapa_ops_get op padrao =
     (if op = ''=='' then ''==''
      else if op = ''!='' then ''!=''
      else if op = ''<'' then ''<''
      else if op = ''<='' then ''<=''
      else if op = ''>'' then ''>''
      else if op = ''>='' then ''>=''
      else if op = ''+'' then ''+''
      else if op = ''-'' then ''-''
      else if op = ''*'' then ''*''
      else if op = ''/'' then ''/''
      else if op = ''%'' then ''%''
      else if op = ''**'' then ''**''
      else padrao)"

text \<open>\<open>valores_padrao.get(no.tipo_dado, 'None')\<close> of \<open>visitar_declaracao_variavel\<close>.\<close>

definition valores_padrao_get :: "string option \<Rightarrow> string" where
  "valores_padrao_get tipo_dado =
     (if tipo_dado = Some ''inteiro'' then ''0''
      else if tipo_dado = Some ''real'' then ''0.0''
      else if tipo_dado = Some ''texto'' then ''\"\"''
      else if tipo_dado = Some ''logico'' then ''False''
      else ''None'')"

text \<open>The single quote of the host's \<open>sep=''\<close>.\<close>

definition aspa :: string where
  "aspa = [CHR 0x27]"

subsection \<open>The expression visitors of the emitter\<close>

text \<open>Each returns the text of the expression and changes nothing in the emitter; of its
  state they read \<open>em_expressao\<close> only. The names carry the suffix \<open>_py\<close>, since the
  analyser has visitors of the same names.\<close>

fun visitar_expressao_py :: "Hospedeiro \<Rightarrow> GeradorPython \<Rightarrow> Expressao \<Rightarrow> string" where
  "visitar_expressao_py h g (ExpressaoLiteral v tp tk) =
     (if tp = ''texto'' then py_repr h v
      else if tp = ''logico'' then (if verdadeiro_py v then ''True'' else ''False'')
      else py_str h v)"
| "visitar_expressao_py h g (ExpressaoVariavel n tk) = n"
| "visitar_expressao_py h g (ExpressaoBinaria esquerda operador direita) =
     ''('' @ visitar_expressao_py h g esquerda @ '' ''
       @ mapa_ops_get (lexema operador) (lexema operador) @ '' ''
       @ visitar_expressao_py h g direita @ '')''"
| "visitar_expressao_py h g (ExpressaoUnaria operador operando) =
     (if lexema operador = ''nao''
      then ''(not '' @ visitar_expressao_py h g operando @ '')''
      else ''('' @ lexema operador @ visitar_expressao_py h g operando @ '')'')"
| "visitar_expressao_py h g (ExpressaoAgrupamento e) =
     ''('' @ visitar_expressao_py h g e @ '')''"
| "visitar_expressao_py h g (ExpressaoAtribuicao n tk v) =
     (if em_expressao g
      then ''('' @ n @ '' := '' @ visitar_expressao_py h g v @ '')''
      else n @ '' = '' @ visitar_expressao_py h g v)"
| "visitar_expressao_py h g (ExpressaoLogica esquerda operador direita) =
     ''('' @ visitar_expressao_py h g esquerda @ '' ''
       @ (if lexema operador = ''e'' then ''and'' else ''or'') @ '' ''
       @ visitar_expressao_py h g direita @ '')''"
| "visitar_expressao_py h g (ExpressaoChamadaFuncao n tk argumentos) =
     n @ ''('' @ join '', '' (map (visitar_expressao_py h g) argumentos) @ '')''"
| "visitar_expressao_py h g (ExpressaoAcessoArray objeto indice tk) =
     visitar_expressao_py h g objeto @ ''['' @ visitar_expressao_py h g indice @ '']''"

subsection \<open>The statement visitors of the emitter\<close>

text \<open>The test of \<open>visitar_se\<close> for the line \<open>pass\<close> after the then-branch:
  \<open>not no.bloco_verdadeiro.declaracoes if hasattr(no.bloco_verdadeiro, 'declaracoes') else
  True\<close>. Of the statements only a block has a field \<open>declaracoes\<close>.\<close>

fun precisa_pass :: "Declaracao \<Rightarrow> bool" where
  "precisa_pass (DeclaracaoBloco ds) = (ds = [])"
| "precisa_pass d = True"

definition mais_indent :: "GeradorPython \<Rightarrow> GeradorPython" where
  "mais_indent g = g\<lparr>indent_level := indent_level g + 1\<rparr>"

definition menos_indent :: "GeradorPython \<Rightarrow> GeradorPython" where
  "menos_indent g = g\<lparr>indent_level := indent_level g - 1\<rparr>"

text \<open>The lines that open a statement, as the visitors build them.\<close>

definition linha_para :: "string \<Rightarrow> string \<Rightarrow> string \<Rightarrow> string option \<Rightarrow> string" where
  "linha_para variavel inicio fim passo =
     (case passo of
        Some p \<Rightarrow> ''for '' @ variavel @ '' in range('' @ inicio @ '', '' @ fim @ '' + 1, '' @ p @ ''):''
      | None \<Rightarrow> ''for '' @ variavel @ '' in range('' @ inicio @ '', '' @ fim @ '' + 1):'')"

definition linha_escreva :: "string list \<Rightarrow> string" where
  "linha_escreva fragmentos = ''print('' @ join '', '' fragmentos @ '', sep='' @ aspa @ aspa @ '')''"

definition linha_funcao :: "string \<Rightarrow> (string \<times> string) list \<Rightarrow> string" where
  "linha_funcao n params = ''def '' @ n @ ''('' @ join '', '' (map fst params) @ ''):''"

text \<open>The steps of \<open>visitar_se\<close> and \<open>visitar_funcao\<close> between the visits of their
  sub-statements: the line \<open>if ...:\<close> and one level in; after the then-branch the line
  \<open>pass\<close> when the test asks for it, and one level out; the lines \<open>elif ...:\<close> and
  \<open>else:\<close>, each with one level in; the line \<open>pass\<close> of a function with an empty body.\<close>

definition abrir_se :: "Hospedeiro \<Rightarrow> Expressao \<Rightarrow> GeradorPython \<Rightarrow> GeradorPython" where
  "abrir_se h condicao g =
     mais_indent (adicionar (''if '' @ visitar_expressao_py h g condicao @ '':'') g)"

definition fechar_entao :: "Declaracao \<Rightarrow> GeradorPython \<Rightarrow> GeradorPython" where
  "fechar_entao bv g = menos_indent (if precisa_pass bv then adicionar ''pass'' g else g)"

definition abrir_elif :: "Hospedeiro \<Rightarrow> Expressao \<Rightarrow> GeradorPython \<Rightarrow> GeradorPython" where
  "abrir_elif h condicao g =
     mais_indent (adicionar (''elif '' @ visitar_expressao_py h g condicao @ '':'') g)"

definition abrir_else :: "GeradorPython \<Rightarrow> GeradorPython" where
  "abrir_else g = mais_indent (adicionar ''else:'' g)"

definition pass_se_vazio :: "Declaracao list \<Rightarrow> GeradorPython \<Rightarrow> GeradorPython" where
  "pass_se_vazio corpo g = (if corpo = [] then adicionar ''pass'' g else g)"

text \<open>One equation per \<open>visitar_*\<close> method for statements; more than one where the method
  branches on an optional field or on \<open>isinstance(no.bloco_falso, DeclaracaoSe)\<close>. The
  result is the emitter after the method.\<close>

fun visitar_declaracao_py :: "Hospedeiro \<Rightarrow> Declaracao \<Rightarrow> GeradorPython \<Rightarrow> GeradorPython"
and visitar_declaracoes_py :: "Hospedeiro \<Rightarrow> Declaracao list \<Rightarrow> GeradorPython \<Rightarrow> GeradorPython"
where
  "visitar_declaracao_py h (DeclaracaoExpressao e) g =
     adicionar (visitar_expressao_py h (g\<lparr>em_expressao := False\<rparr>) e) (g\<lparr>em_expressao := False\<rparr>)"
| "visitar_declaracao_py h (DeclaracaoVariavel n tk tipo_dado (Some e) const) g =
     adicionar (n @ '' = '' @ visitar_expressao_py h g e) g"
| "visitar_declaracao_py h (DeclaracaoVariavel n tk tipo_dado None const) g =
     adicionar (n @ '' = '' @ valores_padrao_get tipo_dado) g"
| "visitar_declaracao_py h (DeclaracaoBloco ds) g = visitar_declaracoes_py h ds g"
| "visitar_declaracao_py h (DeclaracaoSe condicao bv None) g =
     fechar_entao bv (visitar_declaracao_py h bv (abrir_se h condicao g))"
| "visitar_declaracao_py h (DeclaracaoSe condicao bv (Some (DeclaracaoSe condicao2 bv2 None))) g =
     menos_indent
       (visitar_declaracao_py h bv2
          (abrir_elif h condicao2
             (fechar_entao bv (visitar_declaracao_py h bv (abrir_se h condicao g)))))"
| "visitar_declaracao_py h
       (DeclaracaoSe condicao bv (Some (DeclaracaoSe condicao2 bv2 (Some bf2)))) g =
     menos_indent
       (visitar_declaracao_py h bf2
          (abrir_else
             (menos_indent
                (visitar_declaracao_py h bv2
                   (abrir_elif h condicao2
                      (fechar_entao bv (visitar_declaracao_py h bv (abrir_se h condicao g))))))))"
| "visitar_declaracao_py h (DeclaracaoSe condicao bv (Some bf)) g =
     menos_indent
       (visitar_declaracao_py h bf
          (abrir_else (fechar_entao bv (visitar_declaracao_py h bv (abrir_se h condicao g)))))"
| "visitar_declaracao_py h (DeclaracaoEnquanto condicao corpo) g =
     menos_indent
       (visitar_declaracao_py h corpo
          (mais_indent (adicionar (''while '' @ visitar_expressao_py h g condicao @ '':'') g)))"
| "visitar_declaracao_py h (DeclaracaoPara n tk inicio fim passo corpo) g =
     menos_indent
       (visitar_declaracao_py h corpo
          (mais_indent
             (adicionar
                (linha_para n (visitar_expressao_py h g inicio) (visitar_expressao_py h g fim)
                   (map_option (visitar_expressao_py h g) passo))
                g)))"
| "visitar_declaracao_py h (DeclaracaoFuncao n tk params tr corpo) g =
     adicionar []
       (menos_indent
          (pass_se_vazio corpo
             (visitar_declaracoes_py h corpo (mais_indent (adicionar (linha_funcao n params) g)))))"
| "visitar_declaracao_py h (DeclaracaoRetorna tk (Some v)) g =
     adicionar (''return '' @ visitar_expressao_py h g v) g"
| "visitar_declaracao_py h (DeclaracaoRetorna tk None) g = adicionar ''return'' g"
| "visitar_declaracao_py h (DeclaracaoEscreva es) g =
     adicionar (linha_escreva (map (visitar_expressao_py h g) es)) g"
| "visitar_declaracao_py h (DeclaracaoLeia n tk (Some mensagem)) g =
     adicionar (n @ '' = input('' @ visitar_expressao_py h g mensagem @ '')'') g"
| "visitar_declaracao_py h (DeclaracaoLeia n tk None) g = adicionar (n @ '' = input()'') g"
| "visitar_declaracoes_py h [] g = g"
| "visitar_declaracoes_py h (d # ds) g = visitar_declaracoes_py h ds (visitar_declaracao_py h d g)"

text \<open>The lines a statement appends to \<open>codigo\<close>.\<close>

definition linhas_de :: "Hospedeiro \<Rightarrow> Declaracao \<Rightarrow> GeradorPython \<Rightarrow> string list" where
  "linhas_de h d g = drop (length (codigo g)) (codigo (visitar_declaracao_py h d g))"

subsection \<open>The host's call syntax\<close>

text \<open>A call in the host's syntax: the callee, and between the parentheses the arguments
  separated by commas. A print call with separator \<open>""\<close> has the expressions as its
  arguments, and after them the keyword argument \<open>sep=''\<close>.\<close>

definition chamada_py :: "string \<Rightarrow> string list \<Rightarrow> string" where
  "chamada_py f argumentos = f @ ''('' @ join '', '' argumentos @ '')''"

definition chamada_print :: "string list \<Rightarrow> string" where
  "chamada_print fragmentos = chamada_py ''print'' (fragmentos @ [''sep='' @ aspa @ aspa])"

section \<open>The scanner's rule for numbers (class Scanner of lexer.py)\<close>

text \<open>The host's tests on a character \<open>c\<close> of the source, a code point. \<open>c.isdigit()\<close>
  holds in ASCII of the ten digits 48 to 57 only, and outside ASCII where the host says
  so (of the superscript two, for instance). \<open>c.lower() == 'e'\<close> holds of \<open>e\<close>, 101, and of
  \<open>E\<close>, 69, and of no other character. The other characters that \<open>analisar_numero\<close> and
  its helpers compare with are the point, 46, the signs \<open>+\<close>, 43, and \<open>-\<close>, 45, the line
  break, 10, and the character 0 that \<open>espiar\<close> returns at the end of the source.\<close>

definition isdigit :: "Hospedeiro \<Rightarrow> nat \<Rightarrow> bool" where
  "isdigit h c = (if c < 128 then 48 \<le> c \<and> c \<le> 57 else py_isdigit h c)"

definition lower_e :: "nat \<Rightarrow> bool" where
  "lower_e c = (c = 101 \<or> c = 69)"

text \<open>What a call of the scanner or of the parser can raise: the scanner's \<open>ErroLexico\<close>
  (message, line, column, context), the parser's \<open>ErroSintatico\<close> (message, token), and
  the host's \<open>IndexError\<close> of an index out of range, \<open>ValueError\<close> of \<open>int\<close> and \<open>float\<close>,
  and \<open>KeyError\<close> of a key that a dict does not hold. A message is a constructor; of the
  messages of lexer.py only the one of \<open>analisar_numero\<close> is needed, of those of
  parser.py the ones of the expression rules.\<close>

datatype MensagemLexica = NotacaoCientificaInvalida

datatype MensagemSintatica =
    AlvoAtribuicaoInvalido
  | EsperadoFechaColcheteIndice
  | MuitosArgumentos
  | EsperadoFechaParenArgumentos
  | ExpressaoNaoChamavel
  | EsperadoFechaParenExpressao
  | EsperadoExpressao

datatype Excecao =
    ErroLexico MensagemLexica nat nat "nat list"
  | ErroSintatico MensagemSintatica Token
  | IndexError
  | ValueError
  | KeyError

text \<open>The state of a \<open>Scanner\<close>. Its fields \<open>linha\<close> and \<open>coluna\<close> carry the suffix
  \<open>_scanner\<close>.\<close>

record Scanner =
  fonte :: "nat list"
  tokens :: "nat Token_de list"
  inicio :: nat
  atual :: nat
  linha_scanner :: nat
  coluna_scanner :: nat
  coluna_inicio :: nat















text \<open>The number rule in the words of the specification, on the text that starts at the
  first digit: one or more digits; a fractional part, a point and digits, only if the
  character after the point is a digit; an exponent, \<open>e\<close> or \<open>E\<close>, a sign or none, and
  digits. The result is, when the exponent has no digit, the number of characters before
  the place of the missing digit; otherwise whether a fraction or an exponent is present,
  and the length of the number.\<close>

definition digitos_iniciais :: "Hospedeiro \<Rightarrow> nat list \<Rightarrow> nat" where
  "digitos_iniciais h tx = length (takeWhile (isdigit h) tx)"

definition tem_fracao :: "Hospedeiro \<Rightarrow> nat list \<Rightarrow> bool" where
  "tem_fracao h r = (case r of c1 # c2 # r' \<Rightarrow> c1 = 46 \<and> isdigit h c2 | _ \<Rightarrow> False)"

definition tem_expoente :: "nat list \<Rightarrow> bool" where
  "tem_expoente r = (case r of c # r' \<Rightarrow> lower_e c | [] \<Rightarrow> False)"

definition tem_sinal :: "nat list \<Rightarrow> bool" where
  "tem_sinal r = (case r of c # r' \<Rightarrow> c = 43 \<or> c = 45 | [] \<Rightarrow> False)"

definition tem_digito :: "Hospedeiro \<Rightarrow> nat list \<Rightarrow> bool" where
  "tem_digito h r = (case r of c # r' \<Rightarrow> isdigit h c | [] \<Rightarrow> False)"

definition numero_spec :: "Hospedeiro \<Rightarrow> nat list \<Rightarrow> nat + (bool \<times> nat)" where
  "numero_spec h tx =
     (let n1 = digitos_iniciais h tx;
          n2 = (if tem_fracao h (drop n1 tx)
                then n1 + 1 + digitos_iniciais h (drop (n1 + 1) tx) else n1);
          n3 = (if tem_sinal (drop (n2 + 1) tx) then n2 + 2 else n2 + 1)
      in if tem_expoente (drop n2 tx)
         then (if tem_digito h (drop n3 tx)
               then Inr (True, n3 + digitos_iniciais h (drop n3 tx))
               else Inl n3)
         else Inr (tem_fracao h (drop n1 tx), n2))"

text \<open>The scanner after \<open>k\<close> more characters of one line.\<close>

definition pular :: "nat \<Rightarrow> Scanner \<Rightarrow> Scanner" where
  "pular k s = s\<lparr>atual := atual s + k, coluna_scanner := coluna_scanner s + k\<rparr>"


section \<open>The expression rules of the parser (class Parser of parser.py)\<close>

text \<open>The state of a \<open>Parser\<close>: the tokens and the index of the current one. Its fields and
  its method \<open>avancar\<close> carry the suffix \<open>_parser\<close>, since the scanner has the same names.\<close>

record Parser =
  tokens_parser :: "Token list"
  atual_parser :: nat

text \<open>\<open>self.tokens[self.atual]\<close> and \<open>self.tokens[self.atual - 1]\<close>. The index \<open>-1\<close>, which the
  second has when \<open>atual\<close> is 0, is the last token in the host.\<close>

definition token_atual :: "Parser \<Rightarrow> Excecao + Token" where
  "token_atual p =
     (if atual_parser p < length (tokens_parser p)
      then Inr (tokens_parser p ! atual_parser p) else Inl IndexError)"

definition token_anterior :: "Parser \<Rightarrow> Excecao + Token" where
  "token_anterior p =
     (if atual_parser p = 0
      then (if tokens_parser p = [] then Inl IndexError else Inr (last (tokens_parser p)))
      else if atual_parser p - 1 < length (tokens_parser p)
      then Inr (tokens_parser p ! (atual_parser p - 1)) else Inl IndexError)"

definition fim_tokens :: "Parser \<Rightarrow> Excecao + bool" where
  "fim_tokens p =
     (case token_atual p of Inl x \<Rightarrow> Inl x | Inr t \<Rightarrow> Inr (tipo t = FIM_ARQUIVO))"

definition avancar_parser :: "Parser \<Rightarrow> Excecao + (Token \<times> Parser)" where
  "avancar_parser p =
     (case fim_tokens p of
        Inl x \<Rightarrow> Inl x
      | Inr f \<Rightarrow>
          (let p1 = (if f then p else p\<lparr>atual_parser := atual_parser p + 1\<rparr>)
           in case token_anterior p1 of Inl x \<Rightarrow> Inl x | Inr t \<Rightarrow> Inr (t, p1)))"

definition verificar :: "TipoToken \<Rightarrow> Parser \<Rightarrow> Excecao + bool" where
  "verificar t p =
     (case fim_tokens p of
        Inl x \<Rightarrow> Inl x
      | Inr f \<Rightarrow>
          (if f then Inr False
           else case token_atual p of Inl x \<Rightarrow> Inl x | Inr tk \<Rightarrow> Inr (tipo tk = t)))"

text \<open>\<open>combinar\<close> tries the types in order; it returns whether one matched, and the parser
  after the token it consumed.\<close>

fun combinar :: "TipoToken list \<Rightarrow> Parser \<Rightarrow> Excecao + (bool \<times> Parser)" where
  "combinar [] p = Inr (False, p)"
| "combinar (t # ts) p =
     (case verificar t p of
        Inl x \<Rightarrow> Inl x
      | Inr True \<Rightarrow>
          (case avancar_parser p of Inl x \<Rightarrow> Inl x | Inr (tk, p1) \<Rightarrow> Inr (True, p1))
      | Inr False \<Rightarrow> combinar ts p)"

definition consumir :: "TipoToken \<Rightarrow> MensagemSintatica \<Rightarrow> Parser \<Rightarrow> Excecao + (Token \<times> Parser)"
  where
  "consumir t m p =
     (case verificar t p of
        Inl x \<Rightarrow> Inl x
      | Inr True \<Rightarrow> avancar_parser p
      | Inr False \<Rightarrow>
          (case token_atual p of Inl x \<Rightarrow> Inl x | Inr tk \<Rightarrow> Inl (ErroSintatico m tk)))"

text \<open>The dict \<open>op_map\<close> of \<open>atribuicao\<close>.\<close>

definition op_map_get :: "TipoToken \<Rightarrow> TipoToken option" where
  "op_map_get t =
     (if t = MAIS_IGUAL then Some MAIS
      else if t = MENOS_IGUAL then Some MENOS
      else if t = MULT_IGUAL then Some MULTIPLICA
      else if t = DIV_IGUAL then Some DIVIDE
      else None)"

text \<open>The end of \<open>atribuicao\<close>, after the operator and the value have been parsed: the test
  \<open>isinstance(expr, ExpressaoVariavel)\<close>, and for an operator other than \<open>=\<close> the binary node
  with the token \<open>Token(op_map[operador.tipo], operador.lexema[0], None, operador.linha,
  operador.coluna)\<close>.\<close>

fun alvo_atribuicao :: "Expressao \<Rightarrow> Token \<Rightarrow> Expressao \<Rightarrow> Excecao + Expressao" where
  "alvo_atribuicao (ExpressaoVariavel nm tk) operador vl =
     (if tipo operador \<noteq> ATRIBUICAO
      then (case op_map_get (tipo operador) of
              None \<Rightarrow> Inl KeyError
            | Some t \<Rightarrow>
                (case lexema operador of
                   [] \<Rightarrow> Inl IndexError
                 | c # cs \<Rightarrow>
                     Inr (ExpressaoAtribuicao nm tk
                            (ExpressaoBinaria (ExpressaoVariavel nm tk)
                               \<lparr>tipo = t, lexema = [c], valor = VNone,
                                linha = linha operador, coluna = coluna operador\<rparr> vl))))
      else Inr (ExpressaoAtribuicao nm tk vl))"
| "alvo_atribuicao expr operador vl = Inl (ErroSintatico AlvoAtribuicaoInvalido operador)"

text \<open>The end of \<open>finalizar_chamada\<close>, after the arguments: the closing parenthesis and the
  test \<open>isinstance(chamado, ExpressaoVariavel)\<close>.\<close>

fun no_chamada :: "Expressao \<Rightarrow> Expressao list \<Rightarrow> Parser \<Rightarrow> Excecao + Expressao" where
  "no_chamada (ExpressaoVariavel nm tk) argumentos p = Inr (ExpressaoChamadaFuncao nm tk argumentos)"
| "no_chamada chamado argumentos p =
     (case token_atual p of
        Inl x \<Rightarrow> Inl x
      | Inr tk \<Rightarrow> Inl (ErroSintatico ExpressaoNaoChamavel tk))"

text \<open>The result of a rule: it raises, it returns a node and the parser after it, or the
  fuel ran out. The rules call each other recursively and loop; the fuel, the first
  argument of each, is spent one unit for each call of a rule from a rule and for each
  turn of a loop.\<close>

datatype 'a Resultado = Esgotado | Levanta Excecao | Retorna 'a

type_synonym Regra = "Parser \<Rightarrow> (Expressao \<times> Parser) Resultado"

text \<open>The loop shared by the rules \<open>logico_ou\<close>, \<open>logico_e\<close>, \<open>igualdade\<close>, \<open>comparacao\<close>,
  \<open>termo\<close> and \<open>fator\<close>: \<open>while self.combinar(tipos): operador = self.token_anterior();
  direita = sub(); expr = No(expr, operador, direita)\<close>, where \<open>sub\<close> is the rule of the next
  level and \<open>No\<close> is \<open>ExpressaoLogica\<close> or \<open>ExpressaoBinaria\<close>.\<close>

fun enquanto_combinar ::
  "Regra \<Rightarrow> TipoToken list \<Rightarrow> (Expressao \<Rightarrow> Token \<Rightarrow> Expressao \<Rightarrow> Expressao)
     \<Rightarrow> nat \<Rightarrow> Expressao \<Rightarrow> Regra" where
  "enquanto_combinar sub tipos no 0 expr p = Esgotado"
| "enquanto_combinar sub tipos no (Suc n) expr p =
     (case combinar tipos p of
        Inl x \<Rightarrow> Levanta x
      | Inr (False, p1) \<Rightarrow> Retorna (expr, p1)
      | Inr (True, p1) \<Rightarrow>
          (case token_anterior p1 of
             Inl x \<Rightarrow> Levanta x
           | Inr operador \<Rightarrow>
               (case sub p1 of
                  Esgotado \<Rightarrow> Esgotado
                | Levanta x \<Rightarrow> Levanta x
                | Retorna (direita, p2) \<Rightarrow>
                    enquanto_combinar sub tipos no n (no expr operador direita) p2)))"

text \<open>\<open>finalizar_chamada\<close>, with the rule \<open>expressao\<close> as its first argument. Its loop
  \<open>while self.combinar(TipoToken.VIRGULA)\<close> is \<open>argumentos_enquanto\<close>.\<close>

fun argumentos_enquanto ::
  "Regra \<Rightarrow> nat \<Rightarrow> Expressao list \<Rightarrow> Parser \<Rightarrow> (Expressao list \<times> Parser) Resultado" where
  "argumentos_enquanto exp 0 argumentos p = Esgotado"
| "argumentos_enquanto exp (Suc n) argumentos p =
     (case combinar [VIRGULA] p of
        Inl x \<Rightarrow> Levanta x
      | Inr (False, p1) \<Rightarrow> Retorna (argumentos, p1)
      | Inr (True, p1) \<Rightarrow>
          (if length argumentos \<ge> 255
           then (case token_atual p1 of
                   Inl x \<Rightarrow> Levanta x
                 | Inr tk \<Rightarrow> Levanta (ErroSintatico MuitosArgumentos tk))
           else (case exp p1 of
                   Esgotado \<Rightarrow> Esgotado
                 | Levanta x \<Rightarrow> Levanta x
                 | Retorna (a, p2) \<Rightarrow> argumentos_enquanto exp n (argumentos @ [a]) p2)))"

definition argumentos_chamada ::
  "Regra \<Rightarrow> nat \<Rightarrow> Parser \<Rightarrow> (Expressao list \<times> Parser) Resultado" where
  "argumentos_chamada exp n p =
     (case verificar FECHA_PAREN p of
        Inl x \<Rightarrow> Levanta x
      | Inr True \<Rightarrow> Retorna ([], p)
      | Inr False \<Rightarrow>
          (case exp p of
             Esgotado \<Rightarrow> Esgotado
           | Levanta x \<Rightarrow> Levanta x
           | Retorna (a, p1) \<Rightarrow> argumentos_enquanto exp n [a] p1))"

definition finalizar_chamada :: "Regra \<Rightarrow> nat \<Rightarrow> Expressao \<Rightarrow> Regra" where
  "finalizar_chamada exp n chamado p =
     (case argumentos_chamada exp n p of
        Esgotado \<Rightarrow> Esgotado
      | Levanta x \<Rightarrow> Levanta x
      | Retorna (argumentos, p1) \<Rightarrow>
          (case consumir FECHA_PAREN EsperadoFechaParenArgumentos p1 of
             Inl x \<Rightarrow> Levanta x
           | Inr (t, p2) \<Rightarrow>
               (case no_chamada chamado argumentos p2 of
                  Inl x \<Rightarrow> Levanta x
                | Inr e \<Rightarrow> Retorna (e, p2))))"

text \<open>The loop \<open>while True\<close> of \<open>chamada\<close>, with the rule \<open>expressao\<close> as its first
  argument.\<close>

fun chamada_enquanto :: "Regra \<Rightarrow> nat \<Rightarrow> Expressao \<Rightarrow> Regra" where
  "chamada_enquanto exp 0 expr p = Esgotado"
| "chamada_enquanto exp (Suc n) expr p =
     (case combinar [ABRE_PAREN] p of
        Inl x \<Rightarrow> Levanta x
      | Inr (True, p1) \<Rightarrow>
          (case finalizar_chamada exp n expr p1 of
             Esgotado \<Rightarrow> Esgotado
           | Levanta x \<Rightarrow> Levanta x
           | Retorna (e, p2) \<Rightarrow> chamada_enquanto exp n e p2)
      | Inr (False, p1) \<Rightarrow>
          (case combinar [ABRE_COLCHETE] p1 of
             Inl x \<Rightarrow> Levanta x
           | Inr (True, p2) \<Rightarrow>
               (case token_anterior p2 of
                  Inl x \<Rightarrow> Levanta x
                | Inr tk \<Rightarrow>
                    (case exp p2 of
                       Esgotado \<Rightarrow> Esgotado
                     | Levanta x \<Rightarrow> Levanta x
                     | Retorna (indice, p3) \<Rightarrow>
                         (case consumir FECHA_COLCHETE EsperadoFechaColcheteIndice p3 of
                            Inl x \<Rightarrow> Levanta x
                          | Inr (t, p4) \<Rightarrow>
                              chamada_enquanto exp n (ExpressaoAcessoArray expr indice tk) p4)))
           | Inr (False, p2) \<Rightarrow> Retorna (expr, p2)))"

text \<open>The end of \<open>atribuicao\<close> and of \<open>potencia\<close>, after the left operand: the test of
  \<open>combinar\<close>, the operator, and the right operand by the rule \<open>sub\<close>.\<close>

definition direita_de ::
  "Regra \<Rightarrow> TipoToken list \<Rightarrow> Parser \<Rightarrow> ((Token \<times> Expressao) option \<times> Parser) Resultado" where
  "direita_de sub tipos p =
     (case combinar tipos p of
        Inl x \<Rightarrow> Levanta x
      | Inr (False, p1) \<Rightarrow> Retorna (None, p1)
      | Inr (True, p1) \<Rightarrow>
          (case token_anterior p1 of
             Inl x \<Rightarrow> Levanta x
           | Inr operador \<Rightarrow>
               (case sub p1 of
                  Esgotado \<Rightarrow> Esgotado
                | Levanta x \<Rightarrow> Levanta x
                | Retorna (direita, p2) \<Rightarrow> Retorna (Some (operador, direita), p2))))"

definition concluir_atribuicao :: "Regra \<Rightarrow> Expressao \<Rightarrow> Regra" where
  "concluir_atribuicao sub expr p =
     (case direita_de sub [ATRIBUICAO, MAIS_IGUAL, MENOS_IGUAL, MULT_IGUAL, DIV_IGUAL] p of
        Esgotado \<Rightarrow> Esgotado
      | Levanta x \<Rightarrow> Levanta x
      | Retorna (None, p1) \<Rightarrow> Retorna (expr, p1)
      | Retorna (Some (operador, vl), p1) \<Rightarrow>
          (case alvo_atribuicao expr operador vl of
             Inl x \<Rightarrow> Levanta x
           | Inr e \<Rightarrow> Retorna (e, p1)))"

definition concluir_potencia :: "Regra \<Rightarrow> Expressao \<Rightarrow> Regra" where
  "concluir_potencia sub expr p =
     (case direita_de sub [POTENCIA] p of
        Esgotado \<Rightarrow> Esgotado
      | Levanta x \<Rightarrow> Levanta x
      | Retorna (None, p1) \<Rightarrow> Retorna (expr, p1)
      | Retorna (Some (operador, direita), p1) \<Rightarrow>
          Retorna (ExpressaoBinaria expr operador direita, p1))"

text \<open>\<open>unario\<close>, with the rules \<open>unario\<close> and \<open>chamada\<close> as arguments.\<close>

definition unario_de :: "Regra \<Rightarrow> Regra \<Rightarrow> Regra" where
  "unario_de un ch p =
     (case combinar [NAO, MENOS] p of
        Inl x \<Rightarrow> Levanta x
      | Inr (True, p1) \<Rightarrow>
          (case token_anterior p1 of
             Inl x \<Rightarrow> Levanta x
           | Inr operador \<Rightarrow>
               (case un p1 of
                  Esgotado \<Rightarrow> Esgotado
                | Levanta x \<Rightarrow> Levanta x
                | Retorna (operando, p2) \<Rightarrow> Retorna (ExpressaoUnaria operador operando, p2)))
      | Inr (False, p1) \<Rightarrow> ch p1)"

text \<open>The alternatives of \<open>primario\<close> that make no recursive call: the literals and the
  identifier, in the order of the source. \<open>None\<close> when none of them matches.\<close>

definition literal_de :: "TipoToken \<Rightarrow> Token \<Rightarrow> Expressao" where
  "literal_de t tk =
     (if t = VERDADEIRO then ExpressaoLiteral (VBool True) ''logico'' tk
      else if t = FALSO then ExpressaoLiteral (VBool False) ''logico'' tk
      else if t = NUMERO_INTEIRO then ExpressaoLiteral (valor tk) ''inteiro'' tk
      else if t = NUMERO_REAL then ExpressaoLiteral (valor tk) ''real'' tk
      else if t = TEXTO_tk then ExpressaoLiteral (valor tk) ''texto'' tk
      else ExpressaoVariavel (lexema tk) tk)"

fun primario_simples ::
  "TipoToken list \<Rightarrow> Parser \<Rightarrow> Excecao + (Expressao option \<times> Parser)" where
  "primario_simples [] p = Inr (None, p)"
| "primario_simples (t # ts) p =
     (case combinar [t] p of
        Inl x \<Rightarrow> Inl x
      | Inr (True, p1) \<Rightarrow>
          (case token_anterior p1 of
             Inl x \<Rightarrow> Inl x
           | Inr tk \<Rightarrow> Inr (Some (literal_de t tk), p1))
      | Inr (False, p1) \<Rightarrow> primario_simples ts p1)"

definition primario_de :: "Regra \<Rightarrow> Regra" where
  "primario_de exp p =
     (case primario_simples
             [VERDADEIRO, FALSO, NUMERO_INTEIRO, NUMERO_REAL, TEXTO_tk, IDENTIFICADOR] p of
        Inl x \<Rightarrow> Levanta x
      | Inr (Some e, p1) \<Rightarrow> Retorna (e, p1)
      | Inr (None, p1) \<Rightarrow>
          (case combinar [ABRE_PAREN] p1 of
             Inl x \<Rightarrow> Levanta x
           | Inr (True, p2) \<Rightarrow>
               (case exp p2 of
                  Esgotado \<Rightarrow> Esgotado
                | Levanta x \<Rightarrow> Levanta x
                | Retorna (expr, p3) \<Rightarrow>
                    (case consumir FECHA_PAREN EsperadoFechaParenExpressao p3 of
                       Inl x \<Rightarrow> Levanta x
                     | Inr (t, p4) \<Rightarrow> Retorna (ExpressaoAgrupamento expr, p4)))
           | Inr (False, p2) \<Rightarrow>
               (case token_atual p2 of
                  Inl x \<Rightarrow> Levanta x
                | Inr tk \<Rightarrow> Levanta (ErroSintatico EsperadoExpressao tk))))"

text \<open>A rule followed by what the source does with its result.\<close>

definition seguido_de :: "Regra \<Rightarrow> (Expressao \<Rightarrow> Regra) \<Rightarrow> Regra" where
  "seguido_de r k p =
     (case r p of
        Esgotado \<Rightarrow> Esgotado
      | Levanta x \<Rightarrow> Levanta x
      | Retorna (expr, p1) \<Rightarrow> k expr p1)"

text \<open>The rules of the grammar, from \<open>atribuicao\<close> to \<open>primario\<close>.\<close>

fun atribuicao :: "nat \<Rightarrow> Regra"
and expressao :: "nat \<Rightarrow> Regra"
and logico_ou :: "nat \<Rightarrow> Regra"
and logico_e :: "nat \<Rightarrow> Regra"
and igualdade :: "nat \<Rightarrow> Regra"
and comparacao :: "nat \<Rightarrow> Regra"
and termo :: "nat \<Rightarrow> Regra"
and fator :: "nat \<Rightarrow> Regra"
and potencia :: "nat \<Rightarrow> Regra"
and unario :: "nat \<Rightarrow> Regra"
and chamada :: "nat \<Rightarrow> Regra"
and primario :: "nat \<Rightarrow> Regra"
where
  "atribuicao 0 p = Esgotado"
| "atribuicao (Suc n) p =
     seguido_de (\<lambda>q. logico_ou n q) (concluir_atribuicao (\<lambda>q. atribuicao n q)) p"
| "expressao 0 p = Esgotado"
| "expressao (Suc n) p = atribuicao n p"
| "logico_ou 0 p = Esgotado"
| "logico_ou (Suc n) p =
     seguido_de (\<lambda>q. logico_e n q)
       (enquanto_combinar (\<lambda>q. logico_e n q) [OU] ExpressaoLogica n) p"
| "logico_e 0 p = Esgotado"
| "logico_e (Suc n) p =
     seguido_de (\<lambda>q. igualdade n q)
       (enquanto_combinar (\<lambda>q. igualdade n q) [E] ExpressaoLogica n) p"
| "igualdade 0 p = Esgotado"
| "igualdade (Suc n) p =
     seguido_de (\<lambda>q. comparacao n q)
       (enquanto_combinar (\<lambda>q. comparacao n q) [IGUAL, DIFERENTE] ExpressaoBinaria n) p"
| "comparacao 0 p = Esgotado"
| "comparacao (Suc n) p =
     seguido_de (\<lambda>q. termo n q)
       (enquanto_combinar (\<lambda>q. termo n q) [MENOR, MENOR_IGUAL, MAIOR, MAIOR_IGUAL]
          ExpressaoBinaria n) p"
| "termo 0 p = Esgotado"
| "termo (Suc n) p =
     seguido_de (\<lambda>q. fator n q)
       (enquanto_combinar (\<lambda>q. fator n q) [MAIS, MENOS] ExpressaoBinaria n) p"
| "fator 0 p = Esgotado"
| "fator (Suc n) p =
     seguido_de (\<lambda>q. potencia n q)
       (enquanto_combinar (\<lambda>q. potencia n q) [MULTIPLICA, DIVIDE, MODULO]
          ExpressaoBinaria n) p"
| "potencia 0 p = Esgotado"
| "potencia (Suc n) p =
     seguido_de (\<lambda>q. unario n q) (concluir_potencia (\<lambda>q. potencia n q)) p"
| "unario 0 p = Esgotado"
| "unario (Suc n) p = unario_de (\<lambda>q. unario n q) (\<lambda>q. chamada n q) p"
| "chamada 0 p = Esgotado"
| "chamada (Suc n) p =
     seguido_de (\<lambda>q. primario n q) (chamada_enquanto (\<lambda>q. expressao n q) n) p"
| "primario 0 p = Esgotado"
| "primario (Suc n) p = primario_de (\<lambda>q. expressao n q) p"


subsection \<open>Expressions and tokens up to positions\<close>





text \<open>The parser after \<open>k\<close> more tokens.\<close>

definition adiante :: "nat \<Rightarrow> Parser \<Rightarrow> Parser" where
  "adiante k p = p\<lparr>atual_parser := atual_parser p + k\<rparr>"




text \<open>The rule that parses the right operand of a binary operator in the loops of \<open>termo\<close>
  and \<open>fator\<close>: \<open>fator\<close> for \<open>+\<close> and \<open>-\<close>, \<open>potencia\<close> for \<open>*\<close> and \<open>/\<close>; and the fuel with
  which \<open>atribuicao\<close> reaches that operand, at fuel \<open>m\<close>, in \<open>x = x op e\<close>.\<close>

definition operando :: "TipoToken \<Rightarrow> nat \<Rightarrow> Regra" where
  "operando t m = (if t \<in> set [MAIS, MENOS] then fator m else potencia m)"



section \<open>Auxiliary definitions and example inputs for the semantic analyser\<close>

text \<open>The number of symbol objects in the store.\<close>

definition n_simbolos :: "AnalisadorSemantico \<Rightarrow> nat" where
  "n_simbolos a = length (todos_simbolos (tabela a))"

text \<open>The global scope and the store as \<open>_registrar_builtins\<close> leaves them, written
  out.\<close>

definition escopo_builtins :: "string \<rightharpoonup> nat" where
  "escopo_builtins =
     [''paraInteiro'' \<mapsto> 0, ''paraReal'' \<mapsto> 1, ''paraTexto'' \<mapsto> 2, ''raiz'' \<mapsto> 3,
      ''absoluto'' \<mapsto> 4, ''arredonda'' \<mapsto> 5, ''tamanho'' \<mapsto> 6]"

definition simbolos_builtins :: "Simbolo list" where
  "simbolos_builtins =
     [simbolo_builtin ''paraInteiro'' [(''valor'', DESCONHECIDO)] INTEIRO,
      simbolo_builtin ''paraReal'' [(''valor'', DESCONHECIDO)] REAL,
      simbolo_builtin ''paraTexto'' [(''valor'', DESCONHECIDO)] TEXTO,
      simbolo_builtin ''raiz'' [(''x'', REAL)] REAL,
      simbolo_builtin ''absoluto'' [(''x'', REAL)] REAL,
      simbolo_builtin ''arredonda'' [(''x'', REAL)] REAL,
      simbolo_builtin ''tamanho'' [(''texto'', TEXTO)] INTEIRO]"

text \<open>Example: the expression \<^verbatim>\<open>x + 1\<close> at the start of line 1, in a program that
  declares no \<open>x\<close>.\<close>

definition exemplo_soma :: Expressao where
  "exemplo_soma =
     ExpressaoBinaria
       (ExpressaoVariavel ''x''
          \<lparr>tipo = IDENTIFICADOR, lexema = ''x'', valor = VStr ''x'', linha = 1, coluna = 1\<rparr>)
       \<lparr>tipo = MAIS, lexema = ''+'', valor = VStr ''+'', linha = 1, coluna = 3\<rparr>
       (ExpressaoLiteral (VInt 1) ''inteiro''
          \<lparr>tipo = NUMERO_INTEIRO, lexema = ''1'', valor = VInt 1, linha = 1, coluna = 5\<rparr>)"

text \<open>Example: the program
  \<^verbatim>\<open>funcao principal(): inteiro { retorna 1 se (verdadeiro) { } }\<close>.\<close>

definition exemplo_retorno :: Programa where
  "exemplo_retorno =
     Programa
       [DeclaracaoFuncao ''principal''
          \<lparr>tipo = IDENTIFICADOR, lexema = ''principal'', valor = VStr ''principal'',
           linha = 1, coluna = 8\<rparr>
          [] (Some ''inteiro'')
          [DeclaracaoRetorna
             \<lparr>tipo = RETORNA, lexema = ''retorna'', valor = VStr ''retorna'',
              linha = 1, coluna = 31\<rparr>
             (Some (ExpressaoLiteral (VInt 1) ''inteiro''
                \<lparr>tipo = NUMERO_INTEIRO, lexema = ''1'', valor = VInt 1,
                 linha = 1, coluna = 39\<rparr>)),
           DeclaracaoSe
             (ExpressaoLiteral (VBool True) ''logico''
                \<lparr>tipo = VERDADEIRO, lexema = ''verdadeiro'', valor = VStr ''verdadeiro'',
                 linha = 1, coluna = 45\<rparr>)
             (DeclaracaoBloco []) None]]"

text \<open>Example: the analyser after the declaration \<^verbatim>\<open>var x: inteiro\<close> on line 1 of a
  program, and the statements \<^verbatim>\<open>x = "hi"\<close> and \<^verbatim>\<open>var x: texto = y\<close> on line 2.\<close>

definition exemplo_var_x :: AnalisadorSemantico where
  "exemplo_var_x =
     visitar_declaracao
       (DeclaracaoVariavel ''x''
          \<lparr>tipo = IDENTIFICADOR, lexema = ''x'', valor = VStr ''x'', linha = 1, coluna = 5\<rparr>
          (Some ''inteiro'') None False)
       AnalisadorSemantico_init"

definition exemplo_atribuicao :: Expressao where
  "exemplo_atribuicao =
     ExpressaoAtribuicao ''x''
       \<lparr>tipo = IDENTIFICADOR, lexema = ''x'', valor = VStr ''x'', linha = 2, coluna = 1\<rparr>
       (ExpressaoLiteral (VStr ''hi'') ''texto''
          \<lparr>tipo = TEXTO_tk, lexema = ''\"hi\"'', valor = VStr ''hi'', linha = 2, coluna = 5\<rparr>)"

definition exemplo_redeclaracao :: Declaracao where
  "exemplo_redeclaracao =
     DeclaracaoVariavel ''x''
       \<lparr>tipo = IDENTIFICADOR, lexema = ''x'', valor = VStr ''x'', linha = 2, coluna = 5\<rparr>
       (Some ''texto'')
       (Some (ExpressaoVariavel ''y''
          \<lparr>tipo = IDENTIFICADOR, lexema = ''y'', valor = VStr ''y'', linha = 2, coluna = 16\<rparr>))
       False"

section \<open>Example inputs for the emitter\<close>

text \<open>An example host. Its \<open>str\<close> is the decimal digits of a non-negative integer and the
  shortest decimal text of the floats 2.5 and 3.14; its \<open>int\<close> reads a lexeme of ASCII digits
  and raises on any other; its \<open>float\<close> knows the lexemes \<open>2.5\<close>, \<open>3.14\<close> and \<open>2e+5\<close>; and its
  \<open>isdigit\<close> holds, outside ASCII, of the superscript digits two, three and one (code
  points 178, 179 and 185). Nothing else of it is used.\<close>

fun digitos :: "nat \<Rightarrow> string" where
  "digitos n =
     (if n < 10 then [''0123456789'' ! n]
      else digitos (n div 10) @ [''0123456789'' ! (n mod 10)])"

declare digitos.simps [simp del]

fun valor_decimal :: "nat list \<Rightarrow> nat \<Rightarrow> nat option" where
  "valor_decimal [] acc = Some acc"
| "valor_decimal (c # cs) acc =
     (if 48 \<le> c \<and> c \<le> 57 then valor_decimal cs (10 * acc + (c - 48)) else None)"

definition hospedeiro_exemplo :: Hospedeiro where
  "hospedeiro_exemplo =
     \<lparr>py_int = (\<lambda>l. if l = [] then None else map_option int (valor_decimal l 0)),
      py_float = (\<lambda>l. if l = map py_ord ''3.14'' then Some (PyFloat 0x40091EB851EB851F)
                       else if l = map py_ord ''2.5'' then Some (PyFloat 0x4004000000000000)
                       else if l = map py_ord ''2e+5'' then Some (PyFloat 0x41086A0000000000)
                       else None),
      py_repr = (\<lambda>v. []),
      py_str = (\<lambda>v. case v of
                       VInt i \<Rightarrow> digitos (nat i)
                     | VReal (PyFloat w) \<Rightarrow>
                         (if w = 0x4004000000000000 then ''2.5''
                          else if w = 0x40091EB851EB851F then ''3.14'' else [])
                     | _ \<Rightarrow> []),
      py_isdigit = (\<lambda>c. c \<in> set [178, 179, 185])\<rparr>"

text \<open>Example: the loop \<^verbatim>\<open>para i de 1 ate 10 { s = s + i }\<close> on line 1.\<close>

definition exemplo_para :: Declaracao where
  "exemplo_para =
     DeclaracaoPara ''i''
       \<lparr>tipo = IDENTIFICADOR, lexema = ''i'', valor = VStr ''i'', linha = 1, coluna = 6\<rparr>
       (ExpressaoLiteral (VInt 1) ''inteiro''
          \<lparr>tipo = NUMERO_INTEIRO, lexema = ''1'', valor = VInt 1, linha = 1, coluna = 11\<rparr>)
       (ExpressaoLiteral (VInt 10) ''inteiro''
          \<lparr>tipo = NUMERO_INTEIRO, lexema = ''10'', valor = VInt 10, linha = 1, coluna = 17\<rparr>)
       None
       (DeclaracaoBloco
          [DeclaracaoExpressao
             (ExpressaoAtribuicao ''s''
                \<lparr>tipo = IDENTIFICADOR, lexema = ''s'', valor = VStr ''s'', linha = 1,
                 coluna = 22\<rparr>
                (ExpressaoBinaria
                   (ExpressaoVariavel ''s''
                      \<lparr>tipo = IDENTIFICADOR, lexema = ''s'', valor = VStr ''s'', linha = 1,
                       coluna = 26\<rparr>)
                   \<lparr>tipo = MAIS, lexema = ''+'', valor = VStr ''+'', linha = 1, coluna = 28\<rparr>
                   (ExpressaoVariavel ''i''
                      \<lparr>tipo = IDENTIFICADOR, lexema = ''i'', valor = VStr ''i'', linha = 1,
                       coluna = 30\<rparr>)))])"

text \<open>Example: the program \<^verbatim>\<open>para i de 1 ate 2.5 { escreva(i) }\<close> on line 1, a loop whose
  end is a real literal.\<close>

definition exemplo_para_real :: Declaracao where
  "exemplo_para_real =
     DeclaracaoPara ''i''
       \<lparr>tipo = IDENTIFICADOR, lexema = ''i'', valor = VStr ''i'', linha = 1, coluna = 6\<rparr>
       (ExpressaoLiteral (VInt 1) ''inteiro''
          \<lparr>tipo = NUMERO_INTEIRO, lexema = ''1'', valor = VInt 1, linha = 1, coluna = 11\<rparr>)
       (ExpressaoLiteral (VReal (PyFloat 0x4004000000000000)) ''real''
          \<lparr>tipo = NUMERO_REAL, lexema = ''2.5'', valor = VReal (PyFloat 0x4004000000000000),
           linha = 1, coluna = 17\<rparr>)
       None
       (DeclaracaoBloco
          [DeclaracaoEscreva
             [ExpressaoVariavel ''i''
                \<lparr>tipo = IDENTIFICADOR, lexema = ''i'', valor = VStr ''i'', linha = 1,
                 coluna = 31\<rparr>]])"

section \<open>Example inputs for the scanner\<close>


section \<open>Example inputs for the parser\<close>








section \<open>Properties of the type system\<close>

text \<open>C4. For all types a and b the compatibility predicate holds exactly when a equals b,
  or the two are Int and Real in either order, or one of them is Unknown, or one of them is
  Error; for every other pair it is false.\<close>

theorem C4_tipos_compativeis_iff:
  "tipos_compativeis a b =
     (a = b \<or> (a = INTEIRO \<and> b = REAL) \<or> (a = REAL \<and> b = INTEIRO)
      \<or> a = DESCONHECIDO \<or> b = DESCONHECIDO \<or> a = ERRO \<or> b = ERRO)"
  unfolding tipos_compativeis_def by auto

theorem C4_tipos_compativeis_witness:
  "tipos_compativeis INTEIRO REAL \<and> tipos_compativeis DESCONHECIDO TEXTO
   \<and> tipos_compativeis LOGICO ERRO \<and> \<not> tipos_compativeis INTEIRO TEXTO
   \<and> \<not> tipos_compativeis LOGICO REAL"
  using C4_tipos_compativeis_iff [of INTEIRO REAL]
    C4_tipos_compativeis_iff [of DESCONHECIDO TEXTO]
    C4_tipos_compativeis_iff [of LOGICO ERRO]
    C4_tipos_compativeis_iff [of INTEIRO TEXTO]
    C4_tipos_compativeis_iff [of LOGICO REAL]
  by simp

text \<open>C5. For an arithmetic operator (one of + - * / % **): when both operand types are
  numeric the result is Real if either operand is Real or the operator is /, and Int
  otherwise; and for + on two Text operands the result is Text.\<close>

theorem C5_tipo_resultante_aritmetico:
  "(operador \<in> set [''+'', ''-'', ''*'', ''/'', ''%'', ''**'']
      \<longrightarrow> tipo1 \<in> {INTEIRO, REAL} \<longrightarrow> tipo2 \<in> {INTEIRO, REAL}
      \<longrightarrow> tipo_resultante tipo1 tipo2 operador =
           (if tipo1 = REAL \<or> tipo2 = REAL \<or> operador = ''/'' then REAL else INTEIRO))
   \<and> tipo_resultante TEXTO TEXTO ''+'' = TEXTO"
  unfolding tipo_resultante_def by auto

theorem C5_tipo_resultante_witness:
  "tipo_resultante INTEIRO INTEIRO ''/'' = REAL
   \<and> tipo_resultante INTEIRO INTEIRO ''%'' = INTEIRO
   \<and> tipo_resultante INTEIRO REAL ''**'' = REAL
   \<and> tipo_resultante TEXTO TEXTO ''+'' = TEXTO"
  using C5_tipo_resultante_aritmetico [of "''/''" INTEIRO INTEIRO]
    C5_tipo_resultante_aritmetico [of "''%''" INTEIRO INTEIRO]
    C5_tipo_resultante_aritmetico [of "''**''" INTEIRO REAL]
  by simp

section \<open>Properties of the semantic analyser\<close>

subsection \<open>Auxiliary facts\<close>

text \<open>What \<open>erro\<close> and \<open>aviso\<close> change.\<close>

lemma erros_erro [simp]: "erros (erro m l c a) = erros a @ [ErroSemantico m l c]"
  and tabela_erro [simp]: "tabela (erro m l c a) = tabela a"
  and avisos_erro [simp]: "avisos (erro m l c a) = avisos a"
  and tem_retorno_erro [simp]: "tem_retorno (erro m l c a) = tem_retorno a"
  and funcao_atual_erro [simp]: "funcao_atual (erro m l c a) = funcao_atual a"
  by (simp_all add: erro_def)

lemma erros_aviso [simp]: "erros (aviso m l c a) = erros a"
  and tabela_aviso [simp]: "tabela (aviso m l c a) = tabela a"
  and avisos_aviso [simp]: "avisos (aviso m l c a) = avisos a @ [AvisoSemantico m l c]"
  and tem_retorno_aviso [simp]: "tem_retorno (aviso m l c a) = tem_retorno a"
  and funcao_atual_aviso [simp]: "funcao_atual (aviso m l c a) = funcao_atual a"
  by (simp_all add: aviso_def)

text \<open>No expression visitor stores a symbol: the store keeps its length.\<close>

lemma store_marcar [simp]:
  "length (todos_simbolos (tabela (marcar_inicializado i a))) = length (todos_simbolos (tabela a))"
  by (simp add: marcar_inicializado_def)

lemma n_simbolos_simps [simp]:
  "n_simbolos (erro m l c a) = n_simbolos a"
  "n_simbolos (aviso m l c a) = n_simbolos a"
  "n_simbolos (marcar_inicializado i a) = n_simbolos a"
  by (simp_all add: n_simbolos_def)

lemma n_simbolos_visitar:
  "n_simbolos (snd (visitar_expressao e a)) = n_simbolos a"
  "n_simbolos (visitar_argumentos n tk i args ps a) = n_simbolos a"
proof (induction e a and n tk i args ps a rule: visitar_expressao_visitar_argumentos.induct)
  case (1 v tp tk a)
  then show ?case by simp
next
  case (2 n tk a)
  then show ?case by (simp add: resultado_variavel_def split: option.splits)
next
  case (3 esquerda operador direita a)
  obtain t1 a1 where e1: "visitar_expressao esquerda a = (t1, a1)" by fastforce
  obtain t2 a2 where e2: "visitar_expressao direita a1 = (t2, a2)" by fastforce
  from 3(1) e1 have "n_simbolos a1 = n_simbolos a" by simp
  moreover from 3(2)[OF e1[symmetric]] e2 have "n_simbolos a2 = n_simbolos a1" by simp
  ultimately show ?case by (simp add: e1 e2 resultado_binaria_def Let_def)
next
  case (4 operador operando a)
  obtain t1 a1 where e1: "visitar_expressao operando a = (t1, a1)" by fastforce
  from 4 e1 have "n_simbolos a1 = n_simbolos a" by simp
  then show ?case by (simp add: e1 resultado_unaria_def)
next
  case (5 e a)
  then show ?case by simp
next
  case (6 n tk v a)
  show ?case
  proof (cases "buscar (tabela a) n")
    case None
    then show ?thesis by simp
  next
    case (Some i)
    let ?a0 = "if constante (simbolo_em a i)
               then erro (AtribuirConstante n) (linha tk) (coluna tk) a else a"
    obtain t1 a1 where e1: "visitar_expressao v ?a0 = (t1, a1)" by fastforce
    from 6[OF Some] e1 have "n_simbolos a1 = n_simbolos ?a0" by simp
    then show ?thesis by (simp add: Some e1 resultado_atribuicao_def Let_def)
  qed
next
  case (7 esquerda operador direita a)
  obtain t1 a1 where e1: "visitar_expressao esquerda a = (t1, a1)" by fastforce
  obtain t2 a2 where e2: "visitar_expressao direita a1 = (t2, a2)" by fastforce
  from 7(1) e1 have "n_simbolos a1 = n_simbolos a" by simp
  moreover from 7(2)[OF e1[symmetric]] e2 have "n_simbolos a2 = n_simbolos a1" by simp
  ultimately show ?case by (simp add: e1 e2 resultado_logica_def Let_def)
next
  case (8 n tk argumentos a)
  then show ?case by (simp split: option.splits)
next
  case (9 objeto indice tk a)
  obtain t1 a1 where e1: "visitar_expressao indice a = (t1, a1)" by fastforce
  from 9 e1 have "n_simbolos a1 = n_simbolos a" by simp
  then show ?case by (simp add: e1 resultado_indice_def)
next
  case (10 n tk i ps a)
  then show ?case by simp
next
  case (11 n tk i arg args a)
  then show ?case by simp
next
  case (12 n tk i arg args p ps a)
  obtain t1 a1 where e1: "visitar_expressao arg a = (t1, a1)" by fastforce
  from 12(1) e1 have "n_simbolos a1 = n_simbolos a" by simp
  moreover from 12(2)[OF e1[symmetric]]
  have "n_simbolos (visitar_argumentos n tk (i + 1) args ps
          (verificar_argumento n tk i (snd p) t1 a1))
        = n_simbolos (verificar_argumento n tk i (snd p) t1 a1)" .
  ultimately show ?case by (simp add: e1 verificar_argumento_def)
qed

text \<open>The operations on an analyser written out field by field, for evaluation.\<close>

lemma declarar_simbolo_canon:
  "declarar_simbolo s
     \<lparr>tabela = \<lparr>escopos = es, escopo_atual = k, todos_simbolos = ts\<rparr>,
      erros = er, avisos = av, funcao_atual = f, tem_retorno = r\<rparr> =
   (if (es ! k) (nome s) \<noteq> None
    then \<lparr>tabela = \<lparr>escopos = es, escopo_atual = k, todos_simbolos = ts\<rparr>,
          erros = er, avisos = av, funcao_atual = f, tem_retorno = r\<rparr>
    else \<lparr>tabela = \<lparr>escopos = es[k := (es ! k)(nome s \<mapsto> length ts)], escopo_atual = k,
                     todos_simbolos = ts @ [s\<lparr>escopo := k\<rparr>]\<rparr>,
          erros = er, avisos = av, funcao_atual = f, tem_retorno = r\<rparr>)"
  by (simp add: declarar_simbolo_def declarar_def)

lemma AnalisadorSemantico_init_canon:
  "AnalisadorSemantico_init =
     \<lparr>tabela = \<lparr>escopos = [escopo_builtins], escopo_atual = 0,
                todos_simbolos = simbolos_builtins\<rparr>,
      erros = [], avisos = [], funcao_atual = None, tem_retorno = False\<rparr>"
  by (simp add: AnalisadorSemantico_init_def registrar_builtins_def declarar_simbolo_canon
      TabelaSimbolos_init_def escopo_builtins_def simbolos_builtins_def simbolo_builtin_def
      eval_nat_numeral)

lemma length_simbolos_builtins: "length simbolos_builtins = 7"
  by (simp add: simbolos_builtins_def)

lemma escopo_builtins_x: "escopo_builtins ''x'' = None"
  by (simp add: escopo_builtins_def)

lemma escopo_builtins_principal: "escopo_builtins ''principal'' = None"
  by (simp add: escopo_builtins_def)

lemma buscar_canon:
  "buscar \<lparr>escopos = es, escopo_atual = k, todos_simbolos = ts\<rparr> n = buscar_em (rev es) n"
  by (simp add: buscar_def)

subsection \<open>Error-typed operands of a binary expression\<close>

text \<open>C1 (as the code behaves). The claim is that a binary expression with an operand of
  type Error emits no further diagnostic. The code does the opposite for every arithmetic
  operator: when the left operand has type Error, \<open>tipo_resultante\<close> falls through to
  Error and \<open>visitar_binaria\<close> appends one more diagnostic, after those of the operands.\<close>

theorem C1_erro_em_cascata:
  assumes "visitar_expressao esquerda a = (ERRO, a1)"
    and "visitar_expressao direita a1 = (tipo_dir, a2)"
    and "lexema operador \<in> set [''+'', ''-'', ''*'', ''/'', ''%'', ''**'']"
  shows "visitar_expressao (ExpressaoBinaria esquerda operador direita) a =
           (ERRO, a2\<lparr>erros := erros a2 @
              [ErroSemantico (OperadorBinario (lexema operador) ERRO tipo_dir)
                 (linha operador) (coluna operador)]\<rparr>)"
  using assms by (auto simp add: resultado_binaria_def tipo_resultante_def erro_def)

text \<open>For \<^verbatim>\<open>x + 1\<close> with \<open>x\<close> undeclared the analyser reports two errors: the undeclared
  variable, and the operator applied to \<open>erro\<close> and \<open>inteiro\<close>.\<close>

theorem C1_erro_em_cascata_witness:
  "visitar_expressao exemplo_soma AnalisadorSemantico_init =
     (ERRO, AnalisadorSemantico_init\<lparr>erros :=
        [ErroSemantico (VariavelNaoDeclarada ''x'') 1 1,
         ErroSemantico (OperadorBinario ''+'' ERRO INTEIRO) 1 3]\<rparr>)"
proof -
  let ?tx = "\<lparr>tipo = IDENTIFICADOR, lexema = ''x'', valor = VStr ''x'', linha = 1, coluna = 1\<rparr>"
  let ?t1 = "\<lparr>tipo = NUMERO_INTEIRO, lexema = ''1'', valor = VInt 1, linha = 1, coluna = 5\<rparr>"
  let ?a1 = "AnalisadorSemantico_init\<lparr>erros := [ErroSemantico (VariavelNaoDeclarada ''x'') 1 1]\<rparr>"
  have b: "buscar (tabela AnalisadorSemantico_init) ''x'' = None"
    by (simp add: AnalisadorSemantico_init_canon buscar_canon escopo_builtins_x)
  have e0: "erros AnalisadorSemantico_init = []"
    by (simp add: AnalisadorSemantico_init_canon)
  have h1: "visitar_expressao (ExpressaoVariavel ''x'' ?tx) AnalisadorSemantico_init = (ERRO, ?a1)"
    by (simp add: resultado_variavel_def b erro_def e0)
  have h2: "visitar_expressao (ExpressaoLiteral (VInt 1) ''inteiro'' ?t1) ?a1 = (INTEIRO, ?a1)"
    by (simp add: MAPA_TIPOS_get_def)
  have h3: "lexema \<lparr>tipo = MAIS, lexema = ''+'', valor = VStr ''+'', linha = 1, coluna = 3\<rparr>
              \<in> set [''+'', ''-'', ''*'', ''/'', ''%'', ''**'']"
    by simp
  show ?thesis
    using C1_erro_em_cascata [OF h1 h2 h3] by (simp add: exemplo_soma_def)
qed

subsection \<open>The return flag after an if statement\<close>

text \<open>C2 (as the code behaves). The claim is that after an \<open>if\<close> with only the then-branch
  the flag \<open>tem_retorno\<close> has the value it had before the statement. In the code
  \<open>tem_retorno_falso\<close> stays \<open>False\<close> when there is no else-branch, so the flag is
  \<open>False\<close> after the statement, whatever it was before and whatever the branch did.\<close>

theorem C2_se_sem_senao_perde_retorno:
  "tem_retorno (visitar_declaracao (DeclaracaoSe condicao bloco_verdadeiro None) a) = False"
  by (simp add: Let_def split: prod.splits)

text \<open>More operations written out field by field.\<close>

lemma entrar_canon:
  "entrar \<lparr>tabela = \<lparr>escopos = es, escopo_atual = k, todos_simbolos = ts\<rparr>,
      erros = er, avisos = av, funcao_atual = f, tem_retorno = r\<rparr> =
   \<lparr>tabela = \<lparr>escopos = es @ [Map.empty], escopo_atual = k + 1, todos_simbolos = ts\<rparr>,
      erros = er, avisos = av, funcao_atual = f, tem_retorno = r\<rparr>"
  by (simp add: entrar_def entrar_escopo_def)

lemma sair_canon:
  "sair \<lparr>tabela = \<lparr>escopos = es, escopo_atual = k, todos_simbolos = ts\<rparr>,
      erros = er, avisos = av, funcao_atual = f, tem_retorno = r\<rparr> =
   (if k > 0
    then \<lparr>tabela = \<lparr>escopos = butlast es, escopo_atual = k - 1, todos_simbolos = ts\<rparr>,
          erros = er, avisos = av, funcao_atual = f, tem_retorno = r\<rparr>
    else \<lparr>tabela = \<lparr>escopos = es, escopo_atual = k, todos_simbolos = ts\<rparr>,
          erros = er, avisos = av, funcao_atual = f, tem_retorno = r\<rparr>)"
  by (simp add: sair_def sair_escopo_def)

lemma abrir_funcao_sem_parametros_canon:
  "abrir_funcao n tk [] tr
     \<lparr>tabela = \<lparr>escopos = es, escopo_atual = k, todos_simbolos = ts\<rparr>,
      erros = er, avisos = av, funcao_atual = f, tem_retorno = r\<rparr> =
   (if (es ! k) n \<noteq> None
    then \<lparr>tabela = \<lparr>escopos = es @ [Map.empty], escopo_atual = k + 1, todos_simbolos = ts\<rparr>,
          erros = er, avisos = av, funcao_atual = Some (length ts), tem_retorno = False\<rparr>
    else \<lparr>tabela = \<lparr>escopos = es[k := (es ! k)(n \<mapsto> length ts)] @ [Map.empty],
                     escopo_atual = k + 1,
                     todos_simbolos = ts @
                       [\<lparr>nome = n, tipo_simbolo = FUNCAO, categoria = ''funcao'', escopo = k,
                         linha_simbolo = linha tk, coluna_simbolo = coluna tk,
                         constante = False, parametros = [],
                         tipo_retorno = Some (tipo_do_nome tr VAZIO), inicializado = False\<rparr>]\<rparr>,
          erros = er, avisos = av, funcao_atual = Some (length ts), tem_retorno = False\<rparr>)"
  by (simp add: abrir_funcao_def declarar_simbolo_canon simbolo_funcao_def entrar_escopo_def
      declarar_parametros_def Let_def)

text \<open>A function that returns on its first statement and then has an \<open>if\<close> without
  \<open>else\<close>: the flag is lost, and the analysis succeeds with the warning that not every
  path returns.\<close>

theorem C2_se_sem_senao_witness:
  "analisar exemplo_retorno =
     (True,
      \<lparr>tabela = \<lparr>escopos = [escopo_builtins(''principal'' \<mapsto> 7)], escopo_atual = 0,
                 todos_simbolos = simbolos_builtins @
                   [\<lparr>nome = ''principal'', tipo_simbolo = FUNCAO, categoria = ''funcao'',
                     escopo = 0, linha_simbolo = 1, coluna_simbolo = 8, constante = False,
                     parametros = [], tipo_retorno = Some INTEIRO, inicializado = False\<rparr>]\<rparr>,
       erros = [],
       avisos = [AvisoSemantico (NemTodosCaminhosRetornam ''principal'' INTEIRO) 1 8],
       funcao_atual = None, tem_retorno = False\<rparr>)"
proof -
  define tk where "tk = \<lparr>tipo = IDENTIFICADOR, lexema = ''principal'',
     valor = VStr ''principal'', linha = 1, coluna = 8\<rparr>"
  define ret where "ret = DeclaracaoRetorna
             \<lparr>tipo = RETORNA, lexema = ''retorna'', valor = VStr ''retorna'',
              linha = 1, coluna = 31\<rparr>
             (Some (ExpressaoLiteral (VInt 1) ''inteiro''
                \<lparr>tipo = NUMERO_INTEIRO, lexema = ''1'', valor = VInt 1,
                 linha = 1, coluna = 39\<rparr>))"
  define se where "se = DeclaracaoSe
             (ExpressaoLiteral (VBool True) ''logico''
                \<lparr>tipo = VERDADEIRO, lexema = ''verdadeiro'', valor = VStr ''verdadeiro'',
                 linha = 1, coluna = 45\<rparr>)
             (DeclaracaoBloco []) None"
  define a0 where "a0 = entrar (abrir_funcao ''principal'' tk [] (Some ''inteiro'')
     AnalisadorSemantico_init)"
  define a1 where "a1 = visitar_declaracao ret a0"
  define a2 where "a2 = visitar_declaracao se a1"
  have a0: "a0 =
     \<lparr>tabela = \<lparr>escopos = [escopo_builtins(''principal'' \<mapsto> 7), Map.empty, Map.empty],
                escopo_atual = 2,
                todos_simbolos = simbolos_builtins @
                   [\<lparr>nome = ''principal'', tipo_simbolo = FUNCAO, categoria = ''funcao'',
                     escopo = 0, linha_simbolo = 1, coluna_simbolo = 8, constante = False,
                     parametros = [], tipo_retorno = Some INTEIRO, inicializado = False\<rparr>]\<rparr>,
      erros = [], avisos = [], funcao_atual = Some 7, tem_retorno = False\<rparr>"
    by (simp add: a0_def tk_def AnalisadorSemantico_init_canon
        abrir_funcao_sem_parametros_canon entrar_canon
        escopo_builtins_principal length_simbolos_builtins tipo_do_nome_def MAPA_TIPOS_get_def)
  have a1: "a1 = a0\<lparr>tem_retorno := True\<rparr>"
    by (simp add: a1_def ret_def a0 retorna_com_valor_def simbolo_em_def nth_append
        length_simbolos_builtins compativel_com_esperado_def tipos_compativeis_def
        MAPA_TIPOS_get_def)
  have antes: "tem_retorno a1"
    by (simp add: a1)
  have depois: "tem_retorno a2 = False"
    unfolding a2_def se_def by (rule C2_se_sem_senao_perde_retorno)
  have "a2 = a1\<lparr>tem_retorno := tem_retorno a2\<rparr>"
    by (simp add: a2_def se_def a1 a0 MAPA_TIPOS_get_def verificar_condicao_se_def
        entrar_canon sair_canon)
  with depois have a2: "a2 = a0"
    by (simp add: a1 a0)
  have b: "buscar_local (tabela AnalisadorSemantico_init) ''principal'' = None"
    by (simp add: AnalisadorSemantico_init_canon buscar_local_def escopo_builtins_principal)
  have f0: "funcao_atual AnalisadorSemantico_init = None"
    by (simp add: AnalisadorSemantico_init_canon)
  have corpo: "visitar_declaracoes [ret, se] a0 = a2"
    by (simp add: a2_def a1_def)
  have "visitar_declaracao
          (DeclaracaoFuncao ''principal'' tk [] (Some ''inteiro'') [ret, se])
          AnalisadorSemantico_init =
        fechar_funcao ''principal'' tk (Some ''inteiro'') None (sair a2)"
    by (simp add: b f0 a0_def [symmetric] corpo del: visitar_declaracoes.simps)
  also have "\<dots> =
      \<lparr>tabela = \<lparr>escopos = [escopo_builtins(''principal'' \<mapsto> 7)], escopo_atual = 0,
                 todos_simbolos = simbolos_builtins @
                   [\<lparr>nome = ''principal'', tipo_simbolo = FUNCAO, categoria = ''funcao'',
                     escopo = 0, linha_simbolo = 1, coluna_simbolo = 8, constante = False,
                     parametros = [], tipo_retorno = Some INTEIRO, inicializado = False\<rparr>]\<rparr>,
       erros = [],
       avisos = [AvisoSemantico (NemTodosCaminhosRetornam ''principal'' INTEIRO) 1 8],
       funcao_atual = None, tem_retorno = False\<rparr>"
    by (simp add: a2 a0 sair_canon fechar_funcao_def tipo_do_nome_def MAPA_TIPOS_get_def
        sair_escopo_def aviso_def tk_def)
  finally show ?thesis
    by (simp add: analisar_def exemplo_retorno_def tk_def ret_def se_def buscar_canon
        del: visitar_declaracao.simps)
qed

subsection \<open>Assignment and redeclaration\<close>

lemma exemplo_var_x_canon:
  "exemplo_var_x =
     \<lparr>tabela = \<lparr>escopos = [escopo_builtins(''x'' \<mapsto> 7)], escopo_atual = 0,
                todos_simbolos = simbolos_builtins @
                  [\<lparr>nome = ''x'', tipo_simbolo = INTEIRO, categoria = ''variavel'',
                    escopo = 0, linha_simbolo = 1, coluna_simbolo = 5, constante = False,
                    parametros = [], tipo_retorno = None, inicializado = False\<rparr>]\<rparr>,
      erros = [], avisos = [], funcao_atual = None, tem_retorno = False\<rparr>"
  by (simp add: exemplo_var_x_def AnalisadorSemantico_init_canon buscar_local_def
      escopo_builtins_x concluir_declaracao_variavel_def tipo_do_nome_def MAPA_TIPOS_get_def
      declarar_simbolo_canon length_simbolos_builtins)

text \<open>C3 (as the code behaves). The claim is that an assignment marks its target
  initialised only when it emitted no error. In the code \<open>simbolo.inicializado = True\<close>
  is reached whenever the target exists: also after the error for a constant and after the
  error for an incompatible type.\<close>

theorem C3_atribuicao_marca_sempre:
  assumes "buscar (tabela a) n = Some i"
    and "i < length (todos_simbolos (tabela a))"
  shows "inicializado (simbolo_em (snd (visitar_expressao (ExpressaoAtribuicao n tk v) a)) i)"
proof -
  define a0 where "a0 = (if constante (simbolo_em a i)
             then erro (AtribuirConstante n) (linha tk) (coluna tk) a else a)"
  obtain t1 a1 where e1: "visitar_expressao v a0 = (t1, a1)" by fastforce
  have "n_simbolos a1 = n_simbolos a0"
    using n_simbolos_visitar(1) [of v a0] e1 by simp
  moreover have "n_simbolos a0 = n_simbolos a"
    by (simp add: a0_def)
  ultimately have "i < length (todos_simbolos (tabela a1))"
    using assms(2) by (simp add: n_simbolos_def)
  then have "inicializado (simbolo_em (snd (resultado_atribuicao i tk t1 a1)) i)"
    by (simp add: resultado_atribuicao_def Let_def marcar_inicializado_def simbolo_em_def
        erro_def)
  then show ?thesis
    by (simp add: assms(1) a0_def [symmetric] e1)
qed

text \<open>After \<^verbatim>\<open>var x: inteiro\<close> the symbol is not initialised; \<^verbatim>\<open>x = "hi"\<close> reports the
  incompatible types and leaves \<open>x\<close> initialised.\<close>

theorem C3_atribuicao_marca_sempre_witness:
  "\<not> inicializado (simbolo_em exemplo_var_x 7)
   \<and> erros exemplo_var_x = []
   \<and> erros (snd (visitar_expressao exemplo_atribuicao exemplo_var_x)) =
       [ErroSemantico (TipoIncompativel TEXTO INTEIRO) 2 1]
   \<and> inicializado (simbolo_em (snd (visitar_expressao exemplo_atribuicao exemplo_var_x)) 7)"
proof -
  have b: "buscar (tabela exemplo_var_x) ''x'' = Some 7"
    by (simp add: exemplo_var_x_canon buscar_canon)
  have l: "7 < length (todos_simbolos (tabela exemplo_var_x))"
    by (simp add: exemplo_var_x_canon length_simbolos_builtins)
  have s: "simbolo_em exemplo_var_x 7 =
      \<lparr>nome = ''x'', tipo_simbolo = INTEIRO, categoria = ''variavel'',
       escopo = 0, linha_simbolo = 1, coluna_simbolo = 5, constante = False,
       parametros = [], tipo_retorno = None, inicializado = False\<rparr>"
    by (simp add: exemplo_var_x_canon simbolo_em_def nth_append length_simbolos_builtins)
  have e: "erros exemplo_var_x = []"
    by (simp add: exemplo_var_x_canon)
  have "erros (snd (visitar_expressao exemplo_atribuicao exemplo_var_x)) =
       [ErroSemantico (TipoIncompativel TEXTO INTEIRO) 2 1]"
    by (simp add: exemplo_atribuicao_def b s e resultado_atribuicao_def MAPA_TIPOS_get_def
        tipos_compativeis_def Let_def marcar_inicializado_def)
  moreover have "inicializado (simbolo_em (snd (visitar_expressao exemplo_atribuicao exemplo_var_x)) 7)"
    unfolding exemplo_atribuicao_def by (rule C3_atribuicao_marca_sempre [OF b l])
  ultimately show ?thesis
    by (simp add: s e)
qed

text \<open>C10. When the name of a variable or function declaration is already in the current
  scope frame, the analyser after the declaration is the analyser before it with one more
  error, the duplicate declaration citing the line of the existing symbol: the symbol
  table, the warnings and the return context are unchanged, and neither the initialiser nor
  the function body is analysed (the result does not depend on them).\<close>

theorem C10_redeclaracao_retorna_logo:
  assumes "(escopos (tabela a) ! escopo_atual (tabela a)) n = Some i"
  shows "visitar_declaracao (DeclaracaoVariavel n tk tipo_dado inicializador const) a =
           a\<lparr>erros := erros a @
              [ErroSemantico (VariavelJaDeclarada n (linha_simbolo (todos_simbolos (tabela a) ! i)))
                 (linha tk) (coluna tk)]\<rparr>
         \<and> visitar_declaracao (DeclaracaoFuncao n tk params tr corpo) a =
           a\<lparr>erros := erros a @
              [ErroSemantico (FuncaoJaDeclarada n (linha_simbolo (todos_simbolos (tabela a) ! i)))
                 (linha tk) (coluna tk)]\<rparr>"
  using assms by (simp add: buscar_local_def erro_def simbolo_em_def)

text \<open>\<^verbatim>\<open>var x: texto = y\<close> after \<^verbatim>\<open>var x: inteiro\<close>: one error, and none for the undeclared
  \<open>y\<close> of the initialiser.\<close>

theorem C10_redeclaracao_witness:
  "visitar_declaracao exemplo_redeclaracao exemplo_var_x =
     exemplo_var_x\<lparr>erros := [ErroSemantico (VariavelJaDeclarada ''x'' 1) 2 5]\<rparr>"
proof -
  have h: "(escopos (tabela exemplo_var_x) ! escopo_atual (tabela exemplo_var_x)) ''x'' = Some 7"
    by (simp add: exemplo_var_x_canon)
  have l: "linha_simbolo (todos_simbolos (tabela exemplo_var_x) ! 7) = 1"
    by (simp add: exemplo_var_x_canon nth_append length_simbolos_builtins)
  have e: "erros exemplo_var_x = []"
    by (simp add: exemplo_var_x_canon)
  show ?thesis
    unfolding exemplo_redeclaracao_def
    using C10_redeclaracao_retorna_logo [OF h, THEN conjunct1] by (simp add: l e)
qed

section \<open>Properties of the emitter\<close>

subsection \<open>Auxiliary facts\<close>

text \<open>What the steps of the emitter do to \<open>codigo\<close>; every statement visitor only appends
  lines.\<close>

lemma codigo_adicionar [simp]: "codigo (adicionar l g) = codigo g @ [indent g @ l]"
  and indent_level_adicionar [simp]: "indent_level (adicionar l g) = indent_level g"
  and em_expressao_adicionar [simp]: "em_expressao (adicionar l g) = em_expressao g"
  by (simp_all add: adicionar_def)

lemma codigo_mais_indent [simp]: "codigo (mais_indent g) = codigo g"
  and codigo_menos_indent [simp]: "codigo (menos_indent g) = codigo g"
  by (simp_all add: mais_indent_def menos_indent_def)

lemma codigo_passos [simp]:
  "codigo (abrir_se h c g) = codigo g @ [indent g @ ''if '' @ visitar_expressao_py h g c @ '':'']"
  "codigo (abrir_elif h c g) = codigo g @ [indent g @ ''elif '' @ visitar_expressao_py h g c @ '':'']"
  "codigo (abrir_else g) = codigo g @ [indent g @ ''else:'']"
  "codigo (fechar_entao bv g) = codigo g @ (if precisa_pass bv then [indent g @ ''pass''] else [])"
  "codigo (pass_se_vazio ds g) = codigo g @ (if ds = [] then [indent g @ ''pass''] else [])"
  by (simp_all add: abrir_se_def abrir_elif_def abrir_else_def fechar_entao_def pass_se_vazio_def)

lemma codigo_cresce:
  "\<exists>ls. codigo (visitar_declaracao_py h d g) = codigo g @ ls"
  "\<exists>ls. codigo (visitar_declaracoes_py h ds g) = codigo g @ ls"
  by (induction h d g and h ds g rule: visitar_declaracao_py_visitar_declaracoes_py.induct)
    auto

lemma codigo_linhas_de: "codigo (visitar_declaracao_py h d g) = codigo g @ linhas_de h d g"
  using codigo_cresce(1) [of h d g] by (auto simp: linhas_de_def)

subsection \<open>The print statement\<close>

text \<open>With at least one expression, the line of \<open>escreva\<close> is a print call: the
  fragments of the expressions, then \<open>sep=''\<close>.\<close>

lemma join_snoc: "xs \<noteq> [] \<Longrightarrow> join sep (xs @ [y]) = join sep xs @ sep @ y"
  by (induction sep xs rule: join.induct) auto

lemma escreva_com_expressoes:
  "es \<noteq> [] \<Longrightarrow>
   linhas_de h (DeclaracaoEscreva es) g = [indent g @ chamada_print (map (visitar_expressao_py h g) es)]"
  by (simp add: linhas_de_def linha_escreva_def chamada_print_def chamada_py_def join_snoc)

subsection \<open>The for loop\<close>

text \<open>What \<open>visitar_para\<close> appends: the line \<open>for n in range(A, B + 1):\<close>, or
  \<open>for n in range(A, B + 1, S):\<close> when there is a step, where A, B and S are the texts
  emitted for the three expressions, and after it the lines of the body one level in.\<close>

lemma para_linhas:
  "linhas_de h (DeclaracaoPara n tk e_inicio e_fim passo corpo) g =
      (indent g @ linha_para n (visitar_expressao_py h g e_inicio) (visitar_expressao_py h g e_fim)
         (map_option (visitar_expressao_py h g) passo))
      # linhas_de h corpo (mais_indent (adicionar (linha_para n (visitar_expressao_py h g e_inicio)
           (visitar_expressao_py h g e_fim) (map_option (visitar_expressao_py h g) passo)) g))"
  by (simp add: linhas_de_def [of h "DeclaracaoPara n tk e_inicio e_fim passo corpo"]
      codigo_linhas_de)

text \<open>C8 (as the code behaves). The claim is that every \<open>para n de A ate B [passo S]\<close>
  becomes a host loop over \<open>range(A, B + 1)\<close>, or \<open>range(A, B + 1, S)\<close>, so that without a
  step the body runs max(0, B - A + 1) times. The emitter does append that line for every
  such statement, whatever the types of the expressions, and \<open>visitar_para\<close> of the
  analyser, which declares the loop variable with the type \<open>INTEIRO\<close>, reports an error for
  a start or an end only when its type is neither \<open>INTEIRO\<close> nor \<open>REAL\<close>. So a loop whose
  end has the type \<open>REAL\<close> passes the analysis, and it is emitted as a loop over a range
  with a float as its end, which the host's \<open>range\<close> does not take.\<close>

theorem C8_para_range_inclusivo:
  "(let A = visitar_expressao_py h g e_inicio; B = visitar_expressao_py h g e_fim;
        l = ''for '' @ n @ '' in range('' @ A @ '', '' @ B @ '' + 1):''
    in linhas_de h (DeclaracaoPara n tk e_inicio e_fim None corpo) g =
         (indent g @ l) # linhas_de h corpo (mais_indent (adicionar l g)))
   \<and> (let A = visitar_expressao_py h g e_inicio; B = visitar_expressao_py h g e_fim;
          S = visitar_expressao_py h g passo;
          l = ''for '' @ n @ '' in range('' @ A @ '', '' @ B @ '' + 1, '' @ S @ ''):''
      in linhas_de h (DeclaracaoPara n tk e_inicio e_fim (Some passo) corpo) g =
           (indent g @ l) # linhas_de h corpo (mais_indent (adicionar l g)))
   \<and> erros (verificar_numerico ValorFinalPara tk REAL
              (verificar_numerico ValorInicialPara tk INTEIRO a)) = erros a"
  using para_linhas [of h n tk e_inicio e_fim None corpo g]
    para_linhas [of h n tk e_inicio e_fim "Some passo" corpo g]
  by (simp add: Let_def linha_para_def verificar_numerico_def)

text \<open>The program \<^verbatim>\<open>para i de 1 ate 2.5 { escreva(i) }\<close>: the emitted loop is over
  \<^verbatim>\<open>range(1, 2.5 + 1)\<close>, and the analysis succeeds, with no error and the one warning that
  there is no function \<open>principal\<close>.\<close>

theorem C8_para_range_inclusivo_witness:
  "linhas_de hospedeiro_exemplo exemplo_para_real GeradorPython_init =
     [''for i in range(1, 2.5 + 1):'', ''    print(i, sep='' @ aspa @ aspa @ '')'']
   \<and> analisar (Programa [exemplo_para_real]) =
     (True, AnalisadorSemantico_init
        \<lparr>tabela := (tabela AnalisadorSemantico_init)
           \<lparr>todos_simbolos := simbolos_builtins @
               [\<lparr>nome = ''i'', tipo_simbolo = INTEIRO, categoria = ''variavel'', escopo = 1,
                 linha_simbolo = 1, coluna_simbolo = 6, constante = False, parametros = [],
                 tipo_retorno = None, inicializado = True\<rparr>]\<rparr>,
         avisos := [AvisoSemantico SemPrincipal 1 1]\<rparr>)"
proof -
  define tki where "tki =
    \<lparr>tipo = IDENTIFICADOR, lexema = ''i'', valor = VStr ''i'', linha = 1, coluna = 6\<rparr>"
  define lit1 where "lit1 = ExpressaoLiteral (VInt 1) ''inteiro''
    \<lparr>tipo = NUMERO_INTEIRO, lexema = ''1'', valor = VInt 1, linha = 1, coluna = 11\<rparr>"
  define lit25 where "lit25 = ExpressaoLiteral (VReal (PyFloat 0x4004000000000000)) ''real''
    \<lparr>tipo = NUMERO_REAL, lexema = ''2.5'', valor = VReal (PyFloat 0x4004000000000000),
      linha = 1, coluna = 17\<rparr>"
  define corpo where "corpo = DeclaracaoBloco
          [DeclaracaoEscreva
             [ExpressaoVariavel ''i''
                \<lparr>tipo = IDENTIFICADOR, lexema = ''i'', valor = VStr ''i'', linha = 1,
                 coluna = 31\<rparr>]]"
  have ex: "exemplo_para_real = DeclaracaoPara ''i'' tki lit1 lit25 None corpo"
    by (simp add: exemplo_para_real_def tki_def lit1_def lit25_def corpo_def)
  have f1: "visitar_expressao_py hospedeiro_exemplo GeradorPython_init lit1 = ''1''"
    by (simp add: lit1_def hospedeiro_exemplo_def digitos.simps)
  have f25: "visitar_expressao_py hospedeiro_exemplo GeradorPython_init lit25 = ''2.5''"
    by (simp add: lit25_def hospedeiro_exemplo_def)
  have i0: "indent GeradorPython_init = []"
    by (simp add: indent_def GeradorPython_init_def)
  have c: "linhas_de hospedeiro_exemplo corpo
             (mais_indent (adicionar ''for i in range(1, 2.5 + 1):'' GeradorPython_init)) =
           [''    print(i, sep='' @ aspa @ aspa @ '')'']"
    by (simp add: corpo_def linhas_de_def indent_def mais_indent_def adicionar_def
        GeradorPython_init_def linha_escreva_def)
  have l: "linhas_de hospedeiro_exemplo (DeclaracaoPara ''i'' tki lit1 lit25 None corpo)
          GeradorPython_init =
        [''for i in range(1, 2.5 + 1):'', ''    print(i, sep='' @ aspa @ aspa @ '')'']"
    using C8_para_range_inclusivo [where h = hospedeiro_exemplo and g = GeradorPython_init
        and e_inicio = lit1 and e_fim = lit25 and n = "''i''" and tk = tki and corpo = corpo
        and passo = lit1 and a = AnalisadorSemantico_init]
    by (simp add: Let_def f1 f25 i0 c)
  have a: "analisar (Programa [exemplo_para_real]) =
     (True, AnalisadorSemantico_init
        \<lparr>tabela := (tabela AnalisadorSemantico_init)
           \<lparr>todos_simbolos := simbolos_builtins @
               [\<lparr>nome = ''i'', tipo_simbolo = INTEIRO, categoria = ''variavel'', escopo = 1,
                 linha_simbolo = 1, coluna_simbolo = 6, constante = False, parametros = [],
                 tipo_retorno = None, inicializado = True\<rparr>]\<rparr>,
         avisos := [AvisoSemantico SemPrincipal 1 1]\<rparr>)"
    by (simp add: analisar_def exemplo_para_real_def AnalisadorSemantico_init_canon entrar_canon
      sair_canon declarar_simbolo_canon simbolo_para_def verificar_numerico_def Let_def
      buscar_canon buscar_local_def MAPA_TIPOS_get_def aviso_def resultado_variavel_def
      simbolo_em_def nth_append length_simbolos_builtins escopo_builtins_principal)
  from l a show ?thesis
    by (simp add: ex)
qed

subsection \<open>The print statement without expressions\<close>

text \<open>C9 (as the code behaves). The claim is that for every number of expressions,
  zero included, the emitter emits one print call with separator \<open>""\<close>. For
  \<^verbatim>\<open>escreva()\<close>, which the parser accepts, the joined fragments are empty and the line is
  \<^verbatim>\<open>print(, sep='')\<close>: an argument list that starts with a comma, which is not the print
  call with the one argument \<open>sep=''\<close> and not a call of the host at all.\<close>

theorem C9_escreva_sem_expressoes:
  "linhas_de h (DeclaracaoEscreva []) g = [indent g @ ''print(, sep='' @ aspa @ aspa @ '')'']
   \<and> ''print(, sep='' @ aspa @ aspa @ '')'' \<noteq> chamada_print []"
  by (simp add: linhas_de_def linha_escreva_def chamada_print_def chamada_py_def aspa_def)

section \<open>Properties of the scanner\<close>

subsection \<open>Auxiliary facts\<close>





lemma pular_simps [simp]:
  "pular 0 s = s"
  "pular a (pular b s) = pular (b + a) s"
  "fonte (pular k s) = fonte s"
  "atual (pular k s) = atual s + k"
  "inicio (pular k s) = inicio s"
  "tokens (pular k s) = tokens s"
  "linha_scanner (pular k s) = linha_scanner s"
  "coluna_scanner (pular k s) = coluna_scanner s + k"
  "coluna_inicio (pular k s) = coluna_inicio s"
  by (simp_all add: pular_def)











lemma numero_spec_Cons:
  "isdigit h d \<Longrightarrow>
   numero_spec h (d # tx) =
     (case numero_spec h tx of Inl k \<Rightarrow> Inl (Suc k) | Inr (is_real, n) \<Rightarrow> Inr (is_real, Suc n))"
  by (simp add: numero_spec_def digitos_iniciais_def Let_def)


lemma digitos_iniciais_le: "digitos_iniciais h tx \<le> length tx"
  unfolding digitos_iniciais_def by (rule length_takeWhile_le)























section \<open>Properties of the parser\<close>

subsection \<open>Auxiliary facts\<close>








subsection \<open>The rules on parsers with the same tokens left\<close>



































text \<open>The parser after some tokens.\<close>

lemma adiante_simps:
  "adiante 0 p = p"
  "adiante (Suc k) p = (adiante k p)\<lparr>atual_parser := Suc (atual_parser (adiante k p))\<rparr>"
  "tokens_parser (adiante k p) = tokens_parser p"
  by (simp_all add: adiante_def)










subsection \<open>Compound assignment\<close>










end
